theory Spec2Isabelle
  imports Main "HOL-Library.Word"
begin

section \<open>The chunked layer-manifest reader (pkg/chunked/compression\_linux.go)\<close>

text \<open>
  A shallow embedding of \<^verbatim>\<open>readEstargzChunkedManifest\<close>, \<^verbatim>\<open>readZstdChunkedManifest\<close> and
  \<^verbatim>\<open>decodeAndValidateBlob\<close>. Go's \<^verbatim>\<open>uint64\<close> and \<^verbatim>\<open>int64\<close> are both 64-bit words: a
  conversion between them keeps the bits, arithmetic wraps, and only the comparisons
  differ (\<open>\<le>\<close> on the word for \<^verbatim>\<open>uint64\<close>, \<open>sint\<close> for \<^verbatim>\<open>int64\<close>).
\<close>

subsection \<open>Data\<close>

type_synonym byte = "8 word"
type_synonym u64 = "64 word"
type_synonym i64 = "64 word"

text \<open>
  Go errors as values. The first group are the errors the file itself creates
  (\<^verbatim>\<open>errors.New\<close>, \<^verbatim>\<open>fmt.Errorf\<close>); \<open>EOF\<close> and \<open>ErrUnexpectedEOF\<close> are those of
  \<^verbatim>\<open>io.ReadFull\<close>; \<open>Panic\<close> is a run-time panic; \<open>Other\<close> is any error of a library or of
  the blob source.
\<close>

datatype error =
    BlobTooSmall
  | ManifestChecksumAnnotationNotFound
  | InvalidMagicNumber
  | InvalidManifestType
  | ManifestTooBig
  | StreamClosed
  | ManifestNotFound
  | InvalidManifestChecksum
  | InvalidBlobChecksum string string
  | ParseToCOffset error
  | EOF
  | ErrUnexpectedEOF
  | Panic string
  | Other string

text \<open>\<^verbatim>\<open>ImageSourceChunk\<close>: one byte range of the blob.\<close>

record ImageSourceChunk =
  Offset :: u64
  Length :: u64

text \<open>
  An \<^verbatim>\<open>io.ReadCloser\<close> handed out by the blob source: an identity, the bytes it will
  deliver, and how it ends once they are read (\<open>None\<close>: a clean end of stream,
  \<open>Some e\<close>: the read error \<open>e\<close>).
\<close>

record stream =
  sid :: nat
  sdata :: "byte list"
  sfail :: "error option"

text \<open>
  Modelled from the spec: the type \<^verbatim>\<open>streamOrErr\<close> is declared outside this file. The
  spec's FetchOutcome is "either a readable byte stream for one ByteRange, or an error".
\<close>

datatype streamOrErr = SoeStream stream | SoeErr error

text \<open>
  The blob source (\<^verbatim>\<open>ImageSourceSeekable\<close>). Its answer to the \<open>n\<close>-th call of
  \<^verbatim>\<open>GetBlobAt\<close> is either a set-up error or the outcomes in the order in which they are
  delivered.
\<close>

type_synonym source = "nat \<Rightarrow> ImageSourceChunk list \<Rightarrow> error + streamOrErr list"

text \<open>
  What a call does to the outside: the requests it has sent to the source, the streams
  the source has opened for it, and the streams it has closed.
\<close>

record world =
  fetches :: "ImageSourceChunk list list"
  opened :: "stream list"
  closed :: "stream list"

text \<open>
  Everything the file takes from other packages. The constants of package
  \<^verbatim>\<open>internal\<close> and of \<^verbatim>\<open>estargz\<close> whose values the spec does not give are fields, as
  are the library functions: \<^verbatim>\<open>digest.Parse\<close>; hashing a byte slice with the algorithm of
  a digest, and with the canonical algorithm (the error is that of \<^verbatim>\<open>Write\<close>);
  \<^verbatim>\<open>zstd.NewReader(nil)\<close> and \<^verbatim>\<open>DecodeAll(input, dst)\<close>; the largest length
  \<^verbatim>\<open>make([]byte, n)\<close> accepts on the platform; \<^verbatim>\<open>strconv.ParseInt(s, 16, 64)\<close>;
  \<^verbatim>\<open>fmt.Sscanf\<close> with the formats \<^verbatim>\<open>%d:%d:%d:%d\<close> and \<^verbatim>\<open>%d:%d:%d\<close>;
  \<^verbatim>\<open>pgzip.NewReader\<close>, which turns a stream into the stream of the decompressed bytes;
  and \<^verbatim>\<open>archivetar.NewReader(r).Next()\<close>, which gives the size of the first entry (never
  negative) and the reader of its payload.
\<close>

record lib =
  ManifestChecksumKey :: string
  ManifestInfoKey :: string
  TarSplitInfoKey :: string
  TarSplitChecksumKey :: string
  TOCJSONDigestAnnotation :: string
  ZstdChunkedFrameMagic :: "byte list"
  ManifestTypeCRFS :: u64
  digest_Parse :: "string \<Rightarrow> error + string"
  digest_FromBytes :: "string \<Rightarrow> byte list \<Rightarrow> error + string"
  digest_Canonical :: "byte list \<Rightarrow> error + string"
  zstd_NewReader :: "error option"
  zstd_DecodeAll :: "byte list \<Rightarrow> byte list \<Rightarrow> error + byte list"
  maxAlloc :: nat
  strconv_ParseInt :: "string \<Rightarrow> error + i64"
  Sscanf4 :: "string \<Rightarrow> error + (u64 \<times> u64 \<times> u64 \<times> u64)"
  Sscanf3 :: "string \<Rightarrow> error + (u64 \<times> u64 \<times> u64)"
  pgzip_NewReader :: "stream \<Rightarrow> error + stream"
  tar_Next :: "stream \<Rightarrow> error + (nat \<times> stream)"

text \<open>\<^verbatim>\<open>maxTocSize = (1 << 20) * 50\<close>\<close>

definition maxTocSize :: nat where
  "maxTocSize = 2 ^ 20 * 50"

text \<open>
  Modelled from the spec: \<^verbatim>\<open>internal.FooterSizeSupported\<close> is declared outside this file;
  the spec gives the native footer as 56 bytes.
\<close>

definition FooterSizeSupported :: i64 where
  "FooterSizeSupported = 56"

subsection \<open>Slices and readers\<close>

text \<open>\<^verbatim>\<open>b[lo:hi]\<close> of a slice that is long enough.\<close>

definition slice :: "nat \<Rightarrow> nat \<Rightarrow> 'a list \<Rightarrow> 'a list" where
  "slice lo hi b = take (hi - lo) (drop lo b)"

text \<open>
  \<^verbatim>\<open>make([]byte, n)\<close> for a run-time \<open>n\<close>: a panic beyond what the platform allocates,
  \<open>n\<close> zero bytes otherwise. \<^verbatim>\<open>make([]byte, 0, n)\<close> is the empty slice: the capacity is
  not part of a slice's contents.
\<close>

definition make_bytes :: "lib \<Rightarrow> u64 \<Rightarrow> error + byte list" where
  "make_bytes L n =
     (if maxAlloc L < unat n then Inl (Panic ''makeslice: len out of range'')
      else Inr (replicate (unat n) 0))"

definition make_cap :: "lib \<Rightarrow> u64 \<Rightarrow> error + byte list" where
  "make_cap L n =
     (if maxAlloc L < unat n then Inl (Panic ''makeslice: cap out of range'')
      else Inr [])"

text \<open>
  \<^verbatim>\<open>io.ReadFull(r, buf)\<close>: the buffer afterwards and the error. A stream with enough
  bytes fills the buffer; a shorter one fills a prefix and reports its own error, or
  \<^verbatim>\<open>io.EOF\<close> when it delivered nothing and \<^verbatim>\<open>io.ErrUnexpectedEOF\<close> otherwise.
\<close>

definition ReadFull :: "stream \<Rightarrow> byte list \<Rightarrow> byte list \<times> error option" where
  "ReadFull r buf =
     (if length buf \<le> length (sdata r) then (take (length buf) (sdata r), None)
      else (sdata r @ drop (length (sdata r)) buf,
            (case sfail r of
               Some e \<Rightarrow> Some e
             | None \<Rightarrow> if sdata r = [] then Some EOF else Some ErrUnexpectedEOF)))"

text \<open>\<^verbatim>\<open>stream.Close()\<close>\<close>

definition Close :: "stream \<Rightarrow> world \<Rightarrow> world" where
  "Close r w = w\<lparr>closed := closed w @ [r]\<rparr>"

text \<open>\<^verbatim>\<open>binary.LittleEndian.Uint64\<close> of an 8-byte slice.\<close>

definition LittleEndian_Uint64 :: "byte list \<Rightarrow> u64" where
  "LittleEndian_Uint64 b =
     foldr (\<lambda>x acc. or (ucast x) (push_bit 8 acc)) (take 8 b) 0"

text \<open>\<^verbatim>\<open>annotations[key]\<close>: the empty string for a key that is absent.\<close>

definition lookup :: "(string \<rightharpoonup> string) \<Rightarrow> string \<Rightarrow> string" where
  "lookup annotations k = (case annotations k of None \<Rightarrow> [] | Some v \<Rightarrow> v)"

subsection \<open>decodeAndValidateBlob\<close>

definition decodeAndValidateBlob :: "lib \<Rightarrow> byte list \<Rightarrow> u64 \<Rightarrow> string \<Rightarrow> error + byte list" where
  "decodeAndValidateBlob L blob lengthUncompressed expectedUncompressedChecksum =
     (case digest_Parse L expectedUncompressedChecksum of
        Inl err \<Rightarrow> Inl err
      | Inr d \<Rightarrow>
          (case digest_FromBytes L d blob of
             Inl err \<Rightarrow> Inl err
           | Inr got \<Rightarrow>
               if got \<noteq> d then Inl (InvalidBlobChecksum d got)
               else
                 (case zstd_NewReader L of
                    Some err \<Rightarrow> Inl err
                  | None \<Rightarrow>
                      (case make_cap L lengthUncompressed of
                         Inl p \<Rightarrow> Inl p
                       | Inr b \<Rightarrow> zstd_DecodeAll L blob b))))"

subsection \<open>Talking to the blob source\<close>

fun streams_of :: "streamOrErr list \<Rightarrow> stream list" where
  "streams_of [] = []"
| "streams_of (SoeStream r # rest) = r # streams_of rest"
| "streams_of (SoeErr e # rest) = streams_of rest"

text \<open>
  \<^verbatim>\<open>blobStream.GetBlobAt(chunks)\<close>: the request is recorded, and every stream of the
  answer is open from then on. The two channels of the Go interface (streams and
  errors) are one list, in the order of delivery.
\<close>

definition GetBlobAt :: "source \<Rightarrow> ImageSourceChunk list \<Rightarrow> world \<Rightarrow> (error + streamOrErr list) \<times> world" where
  "GetBlobAt S chunks w =
     (let w1 = w\<lparr>fetches := fetches w @ [chunks]\<rparr> in
      case S (length (fetches w)) chunks of
        Inl err \<Rightarrow> (Inl err, w1)
      | Inr outcomes \<Rightarrow> (Inr outcomes, w1\<lparr>opened := opened w1 @ streams_of outcomes\<rparr>))"

text \<open>
  Modelled from the spec: \<^verbatim>\<open>getBlobAt\<close> is defined outside this file. The spec's consumed
  capability is "given one or more ByteRanges, return a channel yielding one FetchOutcome
  per range", or a set-up error signalled synchronously: the helper hands the outcomes of
  the source over as one channel, which is closed after the last of them.
\<close>

definition getBlobAt :: "source \<Rightarrow> ImageSourceChunk list \<Rightarrow> world \<Rightarrow> (error + streamOrErr list) \<times> world" where
  "getBlobAt S chunksToRequest w = GetBlobAt S chunksToRequest w"

text \<open>
  Modelled from the spec: \<^verbatim>\<open>ensureAllBlobsDone\<close> is defined outside this file. The spec asks
  the consumer to "always drain every outcome, even after encountering the first error,
  so that streams opened by the source are all closed": every outcome left on the channel
  is taken, a stream is closed, and the first error met is the one reported.
\<close>

fun ensureAllBlobsDone_loop :: "streamOrErr list \<Rightarrow> error option \<Rightarrow> world \<Rightarrow> error option \<times> world" where
  "ensureAllBlobsDone_loop [] retErr w = (retErr, w)"
| "ensureAllBlobsDone_loop (SoeStream r # rest) retErr w = ensureAllBlobsDone_loop rest retErr (Close r w)"
| "ensureAllBlobsDone_loop (SoeErr e # rest) retErr w =
     ensureAllBlobsDone_loop rest (if retErr = None then Some e else retErr) w"

definition ensureAllBlobsDone :: "streamOrErr list \<Rightarrow> world \<Rightarrow> error option \<times> world" where
  "ensureAllBlobsDone streamsOrErrors w = ensureAllBlobsDone_loop streamsOrErrors None w"

subsection \<open>readZstdChunkedManifest\<close>

text \<open>\<^verbatim>\<open>isZstdChunkedFrameMagic\<close>\<close>

definition isZstdChunkedFrameMagic :: "lib \<Rightarrow> byte list \<Rightarrow> bool" where
  "isZstdChunkedFrameMagic L data =
     (if length data < 8 then False else ZstdChunkedFrameMagic L = take 8 data)"

text \<open>
  The local variables that lines 171 to 215 set: where the manifest and the tar-split
  stream are. \<open>length_c\<close> is the variable \<^verbatim>\<open>length\<close>.
\<close>

record location =
  offset :: u64
  length_c :: u64
  lengthUncompressed :: u64
  manifestType :: u64
  offsetTarSplit :: u64
  lengthTarSplit :: u64
  lengthUncompressedTarSplit :: u64
  tarSplitChecksumAnnotation :: string

text \<open>
  Lines 171 to 215: the location from the annotations, or else from the footer. In the
  footer branch the \<^verbatim>\<open>select\<close> takes the outcome that is delivered first; the reader is
  read with \<^verbatim>\<open>io.ReadFull\<close> and nothing else is done with it. A source that closes its
  channels without any outcome hands the \<^verbatim>\<open>select\<close> a nil value, which the model reports
  as a panic.
\<close>

definition readZstdChunkedManifest_locate ::
  "lib \<Rightarrow> source \<Rightarrow> i64 \<Rightarrow> (string \<rightharpoonup> string) \<Rightarrow> world \<Rightarrow> (error + location) \<times> world" where
  "readZstdChunkedManifest_locate L S blobSize annotations w =
     (let offsetMetadata = lookup annotations (ManifestInfoKey L) in
      if offsetMetadata \<noteq> [] then
        (case Sscanf4 L offsetMetadata of
           Inl err \<Rightarrow> (Inl err, w)
         | Inr (off, len, lenU, mt) \<Rightarrow>
             (case annotations (TarSplitInfoKey L) of
                Some tarSplitInfoKeyAnnotation \<Rightarrow>
                  (case Sscanf3 L tarSplitInfoKeyAnnotation of
                     Inl err \<Rightarrow> (Inl err, w)
                   | Inr (offTS, lenTS, lenUTS) \<Rightarrow>
                       (Inr \<lparr>offset = off, length_c = len, lengthUncompressed = lenU,
                             manifestType = mt, offsetTarSplit = offTS, lengthTarSplit = lenTS,
                             lengthUncompressedTarSplit = lenUTS,
                             tarSplitChecksumAnnotation = lookup annotations (TarSplitChecksumKey L)\<rparr>, w))
              | None \<Rightarrow>
                  (Inr \<lparr>offset = off, length_c = len, lengthUncompressed = lenU,
                        manifestType = mt, offsetTarSplit = 0, lengthTarSplit = 0,
                        lengthUncompressedTarSplit = 0, tarSplitChecksumAnnotation = []\<rparr>, w)))
      else
        (let chunk = \<lparr>Offset = blobSize - FooterSizeSupported, Length = FooterSizeSupported\<rparr> in
         case GetBlobAt S [chunk] w of
           (Inl err, w1) \<Rightarrow> (Inl err, w1)
         | (Inr outcomes, w1) \<Rightarrow>
             (case outcomes of
                [] \<Rightarrow> (Inl (Panic ''nil reader''), w1)
              | SoeErr err # _ \<Rightarrow> (Inl err, w1)
              | SoeStream reader # _ \<Rightarrow>
                  (case ReadFull reader (replicate (unat FooterSizeSupported) 0) of
                     (_, Some err) \<Rightarrow> (Inl err, w1)
                   | (footer, None) \<Rightarrow>
                       if \<not> isZstdChunkedFrameMagic L (slice 48 56 footer)
                       then (Inl InvalidMagicNumber, w1)
                       else
                         (Inr \<lparr>offset = LittleEndian_Uint64 (slice 0 8 footer),
                               length_c = LittleEndian_Uint64 (slice 8 16 footer),
                               lengthUncompressed = LittleEndian_Uint64 (slice 16 24 footer),
                               manifestType = LittleEndian_Uint64 (slice 24 32 footer),
                               offsetTarSplit = 0, lengthTarSplit = 0,
                               lengthUncompressedTarSplit = 0,
                               tarSplitChecksumAnnotation = []\<rparr>, w1)))))"

text \<open>
  The closure \<^verbatim>\<open>readBlob\<close>: one outcome is taken from the channel; its stream is closed
  when the closure returns (the \<^verbatim>\<open>defer\<close>), also when \<^verbatim>\<open>make\<close> panics. The result comes
  with what is left on the channel.
\<close>

definition readBlob ::
  "lib \<Rightarrow> u64 \<Rightarrow> streamOrErr list \<Rightarrow> world \<Rightarrow> (error + byte list) \<times> streamOrErr list \<times> world" where
  "readBlob L len streamsOrErrors w =
     (case streamsOrErrors of
        [] \<Rightarrow> (Inl StreamClosed, [], w)
      | SoeErr err # rest \<Rightarrow> (Inl err, rest, w)
      | SoeStream r # rest \<Rightarrow>
          (case make_bytes L len of
             Inl p \<Rightarrow> (Inl p, rest, Close r w)
           | Inr buf \<Rightarrow>
               (case ReadFull r buf of
                  (_, Some err) \<Rightarrow> (Inl err, rest, Close r w)
                | (blob, None) \<Rightarrow> (Inr blob, rest, Close r w))))"

text \<open>Lines 273 to 294: the manifest, then the tar-split stream when its offset is not zero.\<close>

definition readZstdChunkedManifest_blobs ::
  "lib \<Rightarrow> string \<Rightarrow> location \<Rightarrow> streamOrErr list \<Rightarrow> world
     \<Rightarrow> (error + byte list \<times> byte list \<times> i64) \<times> streamOrErr list \<times> world" where
  "readZstdChunkedManifest_blobs L manifestChecksumAnnotation loc streamsOrErrors w =
     (case readBlob L (length_c loc) streamsOrErrors w of
        (Inl err, rest, w1) \<Rightarrow> (Inl err, rest, w1)
      | (Inr manifest, rest, w1) \<Rightarrow>
          (case decodeAndValidateBlob L manifest (lengthUncompressed loc) manifestChecksumAnnotation of
             Inl err \<Rightarrow> (Inl err, rest, w1)
           | Inr decodedBlob \<Rightarrow>
               if 0 < offsetTarSplit loc then
                 (case readBlob L (lengthTarSplit loc) rest w1 of
                    (Inl err, rest2, w2) \<Rightarrow> (Inl err, rest2, w2)
                  | (Inr tarSplit, rest2, w2) \<Rightarrow>
                      (case decodeAndValidateBlob L tarSplit (lengthUncompressedTarSplit loc)
                              (tarSplitChecksumAnnotation loc) of
                         Inl err \<Rightarrow> (Inl err, rest2, w2)
                       | Inr decodedTarSplit \<Rightarrow>
                           (Inr (decodedBlob, decodedTarSplit, offset loc), rest2, w2)))
               else (Inr (decodedBlob, [], offset loc), rest, w1)))"

text \<open>The chunks of the batched request (lines 229 to 242).\<close>

definition chunks_of :: "location \<Rightarrow> ImageSourceChunk list" where
  "chunks_of loc =
     [\<lparr>Offset = offset loc, Length = length_c loc\<rparr>] @
     (if 0 < offsetTarSplit loc
      then [\<lparr>Offset = offsetTarSplit loc, Length = lengthTarSplit loc\<rparr>] else [])"

text \<open>
  Lines 217 to 295: the checks on the location, the batched request, the blobs, and the
  deferred \<^verbatim>\<open>ensureAllBlobsDone\<close>, whose error is returned when there was none before.
\<close>

definition readZstdChunkedManifest_fetch ::
  "lib \<Rightarrow> source \<Rightarrow> string \<Rightarrow> location \<Rightarrow> world \<Rightarrow> (error + byte list \<times> byte list \<times> i64) \<times> world" where
  "readZstdChunkedManifest_fetch L S manifestChecksumAnnotation loc w =
     (if manifestType loc \<noteq> ManifestTypeCRFS L then (Inl InvalidManifestType, w)
      else if maxTocSize < unat (length_c loc) then (Inl ManifestTooBig, w)
      else if maxTocSize < unat (lengthUncompressed loc) then (Inl ManifestTooBig, w)
      else
        (case getBlobAt S (chunks_of loc) w of
           (Inl err, w1) \<Rightarrow> (Inl err, w1)
         | (Inr streamsOrErrors, w1) \<Rightarrow>
             (case readZstdChunkedManifest_blobs L manifestChecksumAnnotation loc streamsOrErrors w1 of
                (res, rest, w2) \<Rightarrow>
                  (case ensureAllBlobsDone rest w2 of
                     (err, w3) \<Rightarrow>
                       (case res of
                          Inl retErr \<Rightarrow> (Inl retErr, w3)
                        | Inr vals \<Rightarrow>
                            (case err of Some e \<Rightarrow> (Inl e, w3) | None \<Rightarrow> (Inr vals, w3)))))))"

definition readZstdChunkedManifest ::
  "lib \<Rightarrow> source \<Rightarrow> i64 \<Rightarrow> (string \<rightharpoonup> string) \<Rightarrow> world \<Rightarrow> (error + byte list \<times> byte list \<times> i64) \<times> world" where
  "readZstdChunkedManifest L S blobSize annotations w =
     (if sint blobSize \<le> sint FooterSizeSupported then (Inl BlobTooSmall, w)
      else
        (let manifestChecksumAnnotation = lookup annotations (ManifestChecksumKey L) in
         if manifestChecksumAnnotation = [] then (Inl ManifestChecksumAnnotationNotFound, w)
         else
           (case readZstdChunkedManifest_locate L S blobSize annotations w of
              (Inl err, w1) \<Rightarrow> (Inl err, w1)
            | (Inr loc, w1) \<Rightarrow> readZstdChunkedManifest_fetch L S manifestChecksumAnnotation loc w1)))"

text \<open>The three checks of lines 217 to 227 pass.\<close>

definition fetch_checks :: "lib \<Rightarrow> location \<Rightarrow> bool" where
  "fetch_checks L loc \<longleftrightarrow>
     manifestType loc = ManifestTypeCRFS L
     \<and> unat (length_c loc) \<le> maxTocSize \<and> unat (lengthUncompressed loc) \<le> maxTocSize"

subsection \<open>readEstargzChunkedManifest\<close>

text \<open>The first loop (lines 64 to 72): the footer is read from every stream delivered.\<close>

fun readEstargzChunkedManifest_footer ::
  "streamOrErr list \<Rightarrow> byte list \<Rightarrow> error option \<Rightarrow> world \<Rightarrow> byte list \<times> error option \<times> world" where
  "readEstargzChunkedManifest_footer [] footer err w = (footer, err, w)"
| "readEstargzChunkedManifest_footer (SoeStream r # rest) footer err w =
     (case ReadFull r footer of
        (footer1, err1) \<Rightarrow> readEstargzChunkedManifest_footer rest footer1 err1 (Close r w))"
| "readEstargzChunkedManifest_footer (SoeErr e # rest) footer err w =
     readEstargzChunkedManifest_footer rest footer (if err = None then Some e else err) w"

text \<open>
  The function literal of lines 103 to 128: its error, and the variable
  \<^verbatim>\<open>manifestUncompressed\<close> it assigns. The stream is closed when it returns.
\<close>

definition readEstargzChunkedManifest_toc ::
  "lib \<Rightarrow> stream \<Rightarrow> byte list option \<Rightarrow> world \<Rightarrow> error option \<times> byte list option \<times> world" where
  "readEstargzChunkedManifest_toc L s manifestUncompressed w =
     (case pgzip_NewReader L s of
        Inl err \<Rightarrow> (Some err, manifestUncompressed, Close s w)
      | Inr r \<Rightarrow>
          (case tar_Next L r of
             Inl err \<Rightarrow> (Some err, manifestUncompressed, Close s w)
           | Inr (headerSize, aTar) \<Rightarrow>
               if maxTocSize < headerSize then (Some ManifestTooBig, manifestUncompressed, Close s w)
               else
                 (case ReadFull aTar (replicate headerSize 0) of
                    (buf, Some err) \<Rightarrow> (Some err, Some buf, Close s w)
                  | (buf, None) \<Rightarrow> (None, Some buf, Close s w))))"

text \<open>The second loop (lines 101 to 135).\<close>

fun readEstargzChunkedManifest_loop ::
  "lib \<Rightarrow> streamOrErr list \<Rightarrow> byte list option \<Rightarrow> error option \<Rightarrow> world
     \<Rightarrow> byte list option \<times> error option \<times> world" where
  "readEstargzChunkedManifest_loop L [] manifestUncompressed err w = (manifestUncompressed, err, w)"
| "readEstargzChunkedManifest_loop L (SoeStream s # rest) manifestUncompressed err w =
     (case readEstargzChunkedManifest_toc L s manifestUncompressed w of
        (err1, manifestUncompressed1, w1) \<Rightarrow>
          readEstargzChunkedManifest_loop L rest manifestUncompressed1
            (if err = None then err1 else err) w1)"
| "readEstargzChunkedManifest_loop L (SoeErr e # rest) manifestUncompressed err w =
     readEstargzChunkedManifest_loop L rest manifestUncompressed
       (if err = None then Some e else err) w"

text \<open>
  The error variable of both loops is assigned again before it is read (lines 83 and
  146), so neither loop's error reaches the caller.
\<close>

definition readEstargzChunkedManifest ::
  "lib \<Rightarrow> source \<Rightarrow> i64 \<Rightarrow> (string \<rightharpoonup> string) \<Rightarrow> world \<Rightarrow> (error + byte list \<times> i64) \<times> world" where
  "readEstargzChunkedManifest L S blobSize annotations w =
     (let footerSize = (51 :: i64) in
      if sint blobSize \<le> sint footerSize then (Inl BlobTooSmall, w)
      else
        (case getBlobAt S [\<lparr>Offset = blobSize - footerSize, Length = footerSize\<rparr>] w of
           (Inl err, w1) \<Rightarrow> (Inl err, w1)
         | (Inr streamsOrErrors, w1) \<Rightarrow>
             (case readEstargzChunkedManifest_footer streamsOrErrors (replicate 51 0) None w1 of
                (footer, _, w2) \<Rightarrow>
                  (case strconv_ParseInt L (map (\<lambda>b. char_of (unat b)) (slice 16 32 footer)) of
                     Inl err \<Rightarrow> (Inl (ParseToCOffset err), w2)
                   | Inr tocOffset \<Rightarrow>
                       (let size = blobSize - footerSize - tocOffset in
                        if int maxTocSize < sint size then (Inl ManifestTooBig, w2)
                        else
                          (case getBlobAt S [\<lparr>Offset = tocOffset, Length = size\<rparr>] w2 of
                             (Inl err, w3) \<Rightarrow> (Inl err, w3)
                           | (Inr streamsOrErrors2, w3) \<Rightarrow>
                               (case readEstargzChunkedManifest_loop L streamsOrErrors2 None None w3 of
                                  (None, _, w4) \<Rightarrow> (Inl ManifestNotFound, w4)
                                | (Some manifestUncompressed, _, w4) \<Rightarrow>
                                    (case digest_Canonical L manifestUncompressed of
                                       Inl err \<Rightarrow> (Inl err, w4)
                                     | Inr got \<Rightarrow>
                                         (case digest_Parse L (lookup annotations (TOCJSONDigestAnnotation L)) of
                                            Inl err \<Rightarrow> (Inl err, w4)
                                          | Inr d \<Rightarrow>
                                              if got \<noteq> d then (Inl InvalidManifestChecksum, w4)
                                              else (Inr (manifestUncompressed, tocOffset), w4))))))))))"

subsection \<open>A small library to run the functions on\<close>

text \<open>
  The theorems below hold for every library and every source. To run the functions on
  concrete inputs the library is instantiated with small stand-ins: a digest that is the
  hexadecimal rendering of the bytes (so two byte strings never share a digest), a
  decompressor for frames that store their payload after the zstd magic number, a gzip
  reader and an archive reader of the same kind, and parsers for hexadecimal and decimal
  numbers that accept what \<^verbatim>\<open>strconv.ParseInt\<close> and \<^verbatim>\<open>fmt.Sscanf\<close> accept.
\<close>

definition hexdigit :: "nat \<Rightarrow> char" where
  "hexdigit n = ''0123456789abcdef'' ! (n mod 16)"

definition hex :: "byte list \<Rightarrow> string" where
  "hex bs = concat (map (\<lambda>b. [hexdigit (unat b div 16), hexdigit (unat b mod 16)]) bs)"

definition toy_Parse :: "string \<Rightarrow> error + string" where
  "toy_Parse s =
     (if take 4 s = ''hex:'' then Inr s else Inl (Other ''invalid checksum digest format''))"

definition toy_FromBytes :: "string \<Rightarrow> byte list \<Rightarrow> error + string" where
  "toy_FromBytes d b = Inr (''hex:'' @ hex b)"

definition toy_DecodeAll :: "byte list \<Rightarrow> byte list \<Rightarrow> error + byte list" where
  "toy_DecodeAll input dst =
     (if take 4 input = [0x28, 0xB5, 0x2F, 0xFD] then Inr (dst @ drop 4 input)
      else Inl (Other ''magic number mismatch''))"

text \<open>The value of a hexadecimal digit, from its character code.\<close>

definition hexval :: "nat \<Rightarrow> nat option" where
  "hexval n =
     (if 48 \<le> n \<and> n \<le> 57 then Some (n - 48)
      else if 97 \<le> n \<and> n \<le> 102 then Some (n - 87)
      else if 65 \<le> n \<and> n \<le> 70 then Some (n - 55)
      else None)"

definition decval :: "char \<Rightarrow> nat option" where
  "decval c =
     (let n = of_char c :: nat in
      if 48 \<le> n \<and> n \<le> 57 then Some (n - 48) else None)"

fun parse_hex :: "nat list \<Rightarrow> nat \<Rightarrow> nat option" where
  "parse_hex [] acc = Some acc"
| "parse_hex (c # cs) acc =
     (case hexval c of None \<Rightarrow> None | Some d \<Rightarrow> parse_hex cs (acc * 16 + d))"

text \<open>An optional sign (code 43 or 45), then at least one hexadecimal digit.\<close>

definition toy_ParseInt :: "string \<Rightarrow> error + i64" where
  "toy_ParseInt s =
     (let cs = map of_char s :: nat list;
          neg = (take 1 cs = [45]);
          ds = (if take 1 cs = [43] \<or> neg then drop 1 cs else cs)
      in if ds = [] then Inl (Other ''invalid syntax'')
         else
           (case parse_hex ds 0 of
              None \<Rightarrow> Inl (Other ''invalid syntax'')
            | Some un \<Rightarrow>
                if \<not> neg \<and> 2 ^ 63 \<le> un then Inl (Other ''value out of range'')
                else if neg \<and> 2 ^ 63 < un then Inl (Other ''value out of range'')
                else Inr (if neg then - of_nat un else of_nat un)))"

fun scan_uint :: "string \<Rightarrow> nat \<Rightarrow> bool \<Rightarrow> (nat \<times> string) option" where
  "scan_uint [] acc seen = (if seen then Some (acc, []) else None)"
| "scan_uint (c # cs) acc seen =
     (case decval c of
        Some d \<Rightarrow> scan_uint cs (acc * 10 + d) True
      | None \<Rightarrow> if seen then Some (acc, c # cs) else None)"

definition scan_field :: "string \<Rightarrow> (u64 \<times> string) option" where
  "scan_field s =
     (case scan_uint s 0 False of
        None \<Rightarrow> None
      | Some (n, r) \<Rightarrow> if 2 ^ 64 \<le> n then None else Some (of_nat n, r))"

definition scan_colon :: "string \<Rightarrow> string option" where
  "scan_colon s = (if take 1 s = '':'' then Some (drop 1 s) else None)"

definition toy_Sscanf3 :: "string \<Rightarrow> error + (u64 \<times> u64 \<times> u64)" where
  "toy_Sscanf3 s =
     (case Option.bind (scan_field s) (\<lambda>(a, r).
           Option.bind (scan_colon r) (\<lambda>r.
           Option.bind (scan_field r) (\<lambda>(b, r).
           Option.bind (scan_colon r) (\<lambda>r.
           Option.bind (scan_field r) (\<lambda>(c, r). Some (a, b, c)))))) of
        None \<Rightarrow> Inl (Other ''unexpected input'')
      | Some v \<Rightarrow> Inr v)"

definition toy_Sscanf4 :: "string \<Rightarrow> error + (u64 \<times> u64 \<times> u64 \<times> u64)" where
  "toy_Sscanf4 s =
     (case Option.bind (scan_field s) (\<lambda>(a, r).
           Option.bind (scan_colon r) (\<lambda>r.
           Option.bind (scan_field r) (\<lambda>(b, r).
           Option.bind (scan_colon r) (\<lambda>r.
           Option.bind (scan_field r) (\<lambda>(c, r).
           Option.bind (scan_colon r) (\<lambda>r.
           Option.bind (scan_field r) (\<lambda>(d, r). Some (a, b, c, d)))))))) of
        None \<Rightarrow> Inl (Other ''unexpected input'')
      | Some v \<Rightarrow> Inr v)"

definition toy_gunzip :: "stream \<Rightarrow> error + stream" where
  "toy_gunzip s =
     (if take 2 (sdata s) = [0x1F, 0x8B] then Inr (s\<lparr>sdata := drop 2 (sdata s)\<rparr>)
      else Inl (Other ''gzip: invalid header''))"

definition toy_tar_Next :: "stream \<Rightarrow> error + (nat \<times> stream)" where
  "toy_tar_Next r =
     (if length (sdata r) < 8 then Inl EOF
      else Inr (unat (LittleEndian_Uint64 (sdata r)), r\<lparr>sdata := drop 8 (sdata r)\<rparr>))"

definition lib0 :: lib where
  "lib0 = \<lparr>
     ManifestChecksumKey = ''manifest-checksum'',
     ManifestInfoKey = ''manifest-position'',
     TarSplitInfoKey = ''tarsplit-position'',
     TarSplitChecksumKey = ''tarsplit-checksum'',
     TOCJSONDigestAnnotation = ''toc.digest'',
     ZstdChunkedFrameMagic = [0x47, 0x6E, 0x55, 0x6C, 0x49, 0x6E, 0x55, 0x78],
     ManifestTypeCRFS = 1,
     digest_Parse = toy_Parse,
     digest_FromBytes = toy_FromBytes,
     digest_Canonical = toy_FromBytes ''hex:'',
     zstd_NewReader = None,
     zstd_DecodeAll = toy_DecodeAll,
     maxAlloc = 2 ^ 47,
     strconv_ParseInt = toy_ParseInt,
     Sscanf4 = toy_Sscanf4,
     Sscanf3 = toy_Sscanf3,
     pgzip_NewReader = toy_gunzip,
     tar_Next = toy_tar_Next\<rparr>"

subsection \<open>Concrete inputs\<close>

definition world0 :: world where
  "world0 = \<lparr>fetches = [], opened = [], closed = []\<rparr>"

text \<open>A stored frame with the one byte 0x41 as payload; its digest is \<open>hex:28b52ffd41\<close>.\<close>

definition blob0 :: "byte list" where
  "blob0 = [0x28, 0xB5, 0x2F, 0xFD, 0x41]"

text \<open>A stored frame with the payload 0x42 0x43, for the tar-split stream.\<close>

definition blobT :: "byte list" where
  "blobT = [0x28, 0xB5, 0x2F, 0xFD, 0x42, 0x43]"

text \<open>
  A native footer: offset 1000, length 5, uncompressed length 1, manifest type 1, sixteen
  bytes that are not read, and the magic number.
\<close>

definition footer0 :: "byte list" where
  "footer0 =
     [0xE8, 0x03, 0, 0, 0, 0, 0, 0,   5, 0, 0, 0, 0, 0, 0, 0,
      1, 0, 0, 0, 0, 0, 0, 0,   1, 0, 0, 0, 0, 0, 0, 0,
      0, 0, 0, 0, 0, 0, 0, 0,   0, 0, 0, 0, 0, 0, 0, 0,
      0x47, 0x6E, 0x55, 0x6C, 0x49, 0x6E, 0x55, 0x78]"

text \<open>The same footer with the last byte of the magic number changed.\<close>

definition footer_bad :: "byte list" where
  "footer_bad =
     [0xE8, 0x03, 0, 0, 0, 0, 0, 0,   5, 0, 0, 0, 0, 0, 0, 0,
      1, 0, 0, 0, 0, 0, 0, 0,   1, 0, 0, 0, 0, 0, 0, 0,
      0, 0, 0, 0, 0, 0, 0, 0,   0, 0, 0, 0, 0, 0, 0, 0,
      0x47, 0x6E, 0x55, 0x6C, 0x49, 0x6E, 0x55, 0x79]"

text \<open>
  A source for a blob of 10000000 bytes: the last 56 bytes are the footer given, the
  range at offset 3000 is \<open>blobT\<close> and every other range is \<open>blob0\<close>. A stream is
  numbered by the offset of its range.
\<close>

definition src0 :: "byte list \<Rightarrow> source" where
  "src0 footer n chunks =
     Inr (map (\<lambda>c. SoeStream
                 \<lparr>sid = unat (Offset c),
                  sdata = (if Offset c = 9999944 then footer
                           else if Offset c = 3000 then blobT else blob0),
                  sfail = None\<rparr>) chunks)"

definition ann_checksum :: "string \<rightharpoonup> string" where
  "ann_checksum = [''manifest-checksum'' \<mapsto> ''hex:28b52ffd41'']"

definition ann_position :: "string \<rightharpoonup> string" where
  "ann_position =
     [''manifest-checksum'' \<mapsto> ''hex:28b52ffd41'', ''manifest-position'' \<mapsto> ''2000:5:1:1'']"


text \<open>A metadata annotation that declares a compressed length of 52428801 bytes.\<close>

definition ann_big :: "string \<rightharpoonup> string" where
  "ann_big =
     [''manifest-checksum'' \<mapsto> ''hex:28b52ffd41'', ''manifest-position'' \<mapsto> ''2000:52428801:1:1'']"

text \<open>
  A gzip-family footer whose sixteen hexadecimal digits at [16, 32) are
  \<open>0000000000000064\<close>, the offset 100.
\<close>

definition footerE :: "byte list" where
  "footerE =
     [0, 0, 0, 0, 0, 0, 0, 0,   0, 0, 0, 0, 0, 0, 0, 0,
      0x30, 0x30, 0x30, 0x30, 0x30, 0x30, 0x30, 0x30,
      0x30, 0x30, 0x30, 0x30, 0x30, 0x30, 0x36, 0x34,
      0, 0, 0, 0, 0, 0, 0, 0,   0, 0, 0, 0, 0, 0, 0, 0,   0, 0, 0]"

text \<open>
  A compressed table of contents whose archive entry declares 52428801 bytes, one more
  than \<open>maxTocSize\<close>.
\<close>

definition tocE :: "byte list" where
  "tocE = [0x1F, 0x8B,   0x01, 0x00, 0x20, 0x03, 0, 0, 0, 0]"

text \<open>The source answers the first request with the footer and any later one with the table.\<close>

definition srcE :: source where
  "srcE n chunks =
     (if n = 0 then Inr [SoeStream \<lparr>sid = 0, sdata = footerE, sfail = None\<rparr>]
      else Inr [SoeStream \<lparr>sid = 2, sdata = tocE, sfail = None\<rparr>])"

section \<open>Properties\<close>

lemmas toy_defs = lib0_def toy_Parse_def toy_FromBytes_def hex_def hexdigit_def toy_DecodeAll_def

lemmas zstd_defs =
  readZstdChunkedManifest_def readZstdChunkedManifest_locate_def readZstdChunkedManifest_fetch_def
  readZstdChunkedManifest_blobs_def readBlob_def make_bytes_def ReadFull_def Close_def
  GetBlobAt_def getBlobAt_def ensureAllBlobsDone_def decodeAndValidateBlob_def make_cap_def
  isZstdChunkedFrameMagic_def slice_def LittleEndian_Uint64_def lookup_def chunks_of_def
  maxTocSize_def FooterSizeSupported_def


subsection \<open>decodeAndValidateBlob\<close>

text \<open>
  Claim C1, as stated: \<^verbatim>\<open>decodeAndValidateBlob\<close> returns the decompressed bytes only if the
  digest computed over the decompressed bytes equals the expected digest. It does not
  hold: the digest is computed over the argument \<^verbatim>\<open>blob\<close>, the bytes as fetched, before
  they are decompressed. Here the frame \<open>blob0\<close> is accepted with its own digest and the
  payload 0x41 is returned, whose digest is \<open>hex:41\<close>, not the expected one.
\<close>

theorem decodeAndValidateBlob_digest_of_decoded_counterexample:
  "decodeAndValidateBlob lib0 [0x28, 0xB5, 0x2F, 0xFD, 0x41] 1 ''hex:28b52ffd41'' = Inr [0x41]
   \<and> digest_Parse lib0 ''hex:28b52ffd41'' = Inr ''hex:28b52ffd41''
   \<and> digest_FromBytes lib0 ''hex:28b52ffd41'' [0x41] = Inr ''hex:41''
   \<and> digest_FromBytes lib0 ''hex:28b52ffd41'' [0x41] \<noteq> Inr ''hex:28b52ffd41''"
  by (simp add: decodeAndValidateBlob_def make_cap_def toy_defs)

text \<open>
  Claim C1, amended: \<^verbatim>\<open>decodeAndValidateBlob\<close> returns the decompressed bytes exactly when
  the expected checksum string parses, the digest computed over the fetched, still
  compressed, bytes equals it, and the decoder (which must have been created, with an
  output buffer the platform can allocate) accepts these bytes; a parse failure, a
  mismatch of that digest or a decompression failure is an error.
\<close>

theorem decodeAndValidateBlob_checks_fetched_bytes:
  "decodeAndValidateBlob L blob n expected = Inr out \<longleftrightarrow>
     (\<exists>d. digest_Parse L expected = Inr d
        \<and> digest_FromBytes L d blob = Inr d
        \<and> zstd_NewReader L = None
        \<and> unat n \<le> maxAlloc L
        \<and> zstd_DecodeAll L blob [] = Inr out)"
  by (auto simp: decodeAndValidateBlob_def make_cap_def split: sum.splits option.splits if_splits)

theorem decodeAndValidateBlob_checks_fetched_bytes_witness:
  "decodeAndValidateBlob lib0 [0x28, 0xB5, 0x2F, 0xFD, 0x41] 1 ''hex:28b52ffd41'' = Inr [0x41]
   \<and> digest_FromBytes lib0 ''hex:28b52ffd41'' [0x28, 0xB5, 0x2F, 0xFD, 0x41] = Inr ''hex:28b52ffd41''
   \<and> (\<forall>out. decodeAndValidateBlob lib0 [0x28, 0xB5, 0x2F, 0xFD, 0x41] 1 ''hex:41'' \<noteq> Inr out)"
  using decodeAndValidateBlob_checks_fetched_bytes
      [of lib0 "[0x28, 0xB5, 0x2F, 0xFD, 0x41]" 1 "''hex:28b52ffd41''" "[0x41]"]
    decodeAndValidateBlob_checks_fetched_bytes
      [of lib0 "[0x28, 0xB5, 0x2F, 0xFD, 0x41]" 1 "''hex:41''"]
  by (simp add: toy_defs)

text \<open>
  Claim C10: the declared uncompressed length is only the capacity of the output buffer.
  A call that succeeds returns what the decoder produced, whatever its length, and
  returns the same for every other declared length the platform can allocate; the
  function succeeds with fewer bytes than declared, and with more.
\<close>

theorem decodeAndValidateBlob_ignores_declared_length:
  "(decodeAndValidateBlob L blob n expected = Inr out \<longrightarrow>
      zstd_DecodeAll L blob [] = Inr out
      \<and> (\<forall>n'. unat n' \<le> maxAlloc L \<longrightarrow> decodeAndValidateBlob L blob n' expected = Inr out))
   \<and> (\<exists>L blob n expected out.
         decodeAndValidateBlob L blob n expected = Inr out \<and> length out < unat n)
   \<and> (\<exists>L blob n expected out.
         decodeAndValidateBlob L blob n expected = Inr out \<and> unat n < length out)"
proof (intro conjI impI allI)
  assume ok: "decodeAndValidateBlob L blob n expected = Inr out"
  then show "zstd_DecodeAll L blob [] = Inr out"
    by (auto simp: decodeAndValidateBlob_def make_cap_def split: sum.splits option.splits if_splits)
  fix n' :: u64
  assume "unat n' \<le> maxAlloc L"
  with ok show "decodeAndValidateBlob L blob n' expected = Inr out"
    by (auto simp: decodeAndValidateBlob_def make_cap_def split: sum.splits option.splits if_splits)
next
  have "decodeAndValidateBlob lib0 [0x28, 0xB5, 0x2F, 0xFD, 0x41] 8000 ''hex:28b52ffd41'' = Inr [0x41]"
    by (simp add: decodeAndValidateBlob_def make_cap_def toy_defs)
  then have "decodeAndValidateBlob lib0 [0x28, 0xB5, 0x2F, 0xFD, 0x41] 8000 ''hex:28b52ffd41'' = Inr [0x41]
      \<and> length [0x41 :: byte] < unat (8000 :: u64)"
    by simp
  then show "\<exists>L blob n expected out.
      decodeAndValidateBlob L blob n expected = Inr out \<and> length out < unat n"
    by blast
next
  have "decodeAndValidateBlob lib0 [0x28, 0xB5, 0x2F, 0xFD, 0x41] 0 ''hex:28b52ffd41'' = Inr [0x41]"
    by (simp add: decodeAndValidateBlob_def make_cap_def toy_defs)
  then have "decodeAndValidateBlob lib0 [0x28, 0xB5, 0x2F, 0xFD, 0x41] 0 ''hex:28b52ffd41'' = Inr [0x41]
      \<and> unat (0 :: u64) < length [0x41 :: byte]"
    by simp
  then show "\<exists>L blob n expected out.
      decodeAndValidateBlob L blob n expected = Inr out \<and> unat n < length out"
    by blast
qed

theorem decodeAndValidateBlob_ignores_declared_length_witness:
  "decodeAndValidateBlob lib0 [0x28, 0xB5, 0x2F, 0xFD, 0x41] 0 ''hex:28b52ffd41'' = Inr [0x41]
   \<and> zstd_DecodeAll lib0 [0x28, 0xB5, 0x2F, 0xFD, 0x41] [] = Inr [0x41]
   \<and> unat (8000 :: u64) \<le> maxAlloc lib0
   \<and> decodeAndValidateBlob lib0 [0x28, 0xB5, 0x2F, 0xFD, 0x41] 8000 ''hex:28b52ffd41'' = Inr [0x41]"
proof -
  have ok: "decodeAndValidateBlob lib0 [0x28, 0xB5, 0x2F, 0xFD, 0x41] 0 ''hex:28b52ffd41'' = Inr [0x41]"
    by (simp add: decodeAndValidateBlob_def make_cap_def toy_defs)
  have small: "unat (8000 :: u64) \<le> maxAlloc lib0"
    by (simp add: lib0_def)
  from decodeAndValidateBlob_ignores_declared_length
    [of lib0 "[0x28, 0xB5, 0x2F, 0xFD, 0x41]" 0 "''hex:28b52ffd41''" "[0x41]"] ok small
  show ?thesis by blast
qed

subsection \<open>The checks before any request\<close>

text \<open>
  Claim C7: a blob whose size does not exceed the footer size (51 bytes for the
  gzip-family format, 56 for the native one) makes \<^verbatim>\<open>readEstargzChunkedManifest\<close> and
  \<^verbatim>\<open>readZstdChunkedManifest\<close> fail with "blob too small", and nothing is requested from
  the source: the world is the one the call started in.
\<close>

theorem blob_too_small:
  "(sint blobSize \<le> 51 \<longrightarrow>
      readEstargzChunkedManifest L S blobSize annotations w = (Inl BlobTooSmall, w))
   \<and> (sint blobSize \<le> 56 \<longrightarrow>
      readZstdChunkedManifest L S blobSize annotations w = (Inl BlobTooSmall, w))"
  by (simp add: readEstargzChunkedManifest_def readZstdChunkedManifest_def FooterSizeSupported_def)

theorem blob_too_small_witness:
  "sint (51 :: i64) \<le> 51 \<and> sint (56 :: i64) \<le> 56
   \<and> readEstargzChunkedManifest lib0 srcE 51 Map.empty world0 = (Inl BlobTooSmall, world0)
   \<and> readZstdChunkedManifest lib0 (src0 footer0) 56 ann_checksum world0 = (Inl BlobTooSmall, world0)"
  using blob_too_small [of 51 lib0 srcE Map.empty world0]
    blob_too_small [of 56 lib0 "src0 footer0" ann_checksum world0]
  by simp



subsection \<open>What a call does to the world\<close>

lemma Close_simps [simp]:
  "fetches (Close r w) = fetches w"
  "opened (Close r w) = opened w"
  "closed (Close r w) = closed w @ [r]"
  by (simp_all add: Close_def)

lemma ensureAllBlobsDone_loop_world:
  "ensureAllBlobsDone_loop soes e w = (e', w') \<Longrightarrow>
     fetches w' = fetches w \<and> opened w' = opened w \<and> closed w' = closed w @ streams_of soes"
  by (induction soes e w rule: ensureAllBlobsDone_loop.induct) auto

lemma ensureAllBlobsDone_world:
  "ensureAllBlobsDone soes w = (e', w') \<Longrightarrow>
     fetches w' = fetches w \<and> opened w' = opened w \<and> closed w' = closed w @ streams_of soes"
  unfolding ensureAllBlobsDone_def by (rule ensureAllBlobsDone_loop_world)

lemma readBlob_world:
  "readBlob L n soes w = (res, rest, w') \<Longrightarrow>
     fetches w' = fetches w \<and> opened w' = opened w
     \<and> closed w' @ streams_of rest = closed w @ streams_of soes"
  by (auto simp: readBlob_def split: list.splits streamOrErr.splits sum.splits prod.splits option.splits)

lemma readZstdChunkedManifest_blobs_world:
  assumes "readZstdChunkedManifest_blobs L mca loc soes w = (res, rest, w')"
  shows "fetches w' = fetches w \<and> opened w' = opened w
     \<and> closed w' @ streams_of rest = closed w @ streams_of soes"
proof -
  obtain r1 rest1 w1 where rb1: "readBlob L (length_c loc) soes w = (r1, rest1, w1)"
    by (cases "readBlob L (length_c loc) soes w") auto
  note b1 = readBlob_world [OF rb1]
  obtain r2 rest2 w2 where rb2: "readBlob L (lengthTarSplit loc) rest1 w1 = (r2, rest2, w2)"
    by (cases "readBlob L (lengthTarSplit loc) rest1 w1") auto
  note b2 = readBlob_world [OF rb2]
  from assms rb1 rb2 b1 b2 show ?thesis
    by (auto simp: readZstdChunkedManifest_blobs_def split: sum.splits if_splits)
qed

lemma readZstdChunkedManifest_fetch_world:
  assumes "readZstdChunkedManifest_fetch L S mca loc w = (res, w')"
  shows "fetches w' = fetches w @ (if fetch_checks L loc then [chunks_of loc] else [])
     \<and> opened w' = opened w @
          (if fetch_checks L loc
           then (case S (length (fetches w)) (chunks_of loc) of Inl e \<Rightarrow> [] | Inr soes \<Rightarrow> streams_of soes)
           else [])
     \<and> closed w' = closed w @
          (if fetch_checks L loc
           then (case S (length (fetches w)) (chunks_of loc) of Inl e \<Rightarrow> [] | Inr soes \<Rightarrow> streams_of soes)
           else [])"
proof (cases "fetch_checks L loc")
  case False
  with assms show ?thesis
    by (auto simp: readZstdChunkedManifest_fetch_def fetch_checks_def split: if_splits)
next
  case True
  show ?thesis
  proof (cases "S (length (fetches w)) (chunks_of loc)")
    case (Inl e)
    with assms True show ?thesis
      by (auto simp: readZstdChunkedManifest_fetch_def fetch_checks_def getBlobAt_def GetBlobAt_def)
  next
    case (Inr soes)
    define w1 where "w1 = w\<lparr>fetches := fetches w @ [chunks_of loc],
                            opened := opened w @ streams_of soes\<rparr>"
    have g: "getBlobAt S (chunks_of loc) w = (Inr soes, w1)"
      using Inr by (simp add: getBlobAt_def GetBlobAt_def w1_def)
    obtain r2 rest w2 where b: "readZstdChunkedManifest_blobs L mca loc soes w1 = (r2, rest, w2)"
      by (cases "readZstdChunkedManifest_blobs L mca loc soes w1") auto
    note bw = readZstdChunkedManifest_blobs_world [OF b]
    obtain e3 w3 where d: "ensureAllBlobsDone rest w2 = (e3, w3)"
      by (cases "ensureAllBlobsDone rest w2") auto
    note dw = ensureAllBlobsDone_world [OF d]
    from assms True g b d have "w' = w3"
      by (auto simp: readZstdChunkedManifest_fetch_def fetch_checks_def
          split: sum.splits option.splits)
    with True Inr bw dw show ?thesis by (simp add: w1_def)
  qed
qed

lemma readZstdChunkedManifest_fetch_cong:
  "S' (length (fetches w)) (chunks_of loc) = S (length (fetches w)) (chunks_of loc) \<Longrightarrow>
   readZstdChunkedManifest_fetch L S' mca loc w = readZstdChunkedManifest_fetch L S mca loc w"
  by (simp add: readZstdChunkedManifest_fetch_def getBlobAt_def GetBlobAt_def)

lemma or_byte_shift:
  fixes x :: byte and acc :: u64
  shows "or (ucast x) (push_bit 8 acc) = ucast x + 256 * acc"
proof -
  have "and (ucast x :: u64) (push_bit 8 acc) = 0"
    by (rule bit_eqI) (auto simp: bit_simps dest: bit_imp_le_length)
  then have "ucast x + push_bit 8 acc = or (ucast x :: u64) (push_bit 8 acc)"
    by (rule disjunctive_add_eq_or)
  moreover have "push_bit 8 acc = 256 * acc"
    by (simp add: push_bit_eq_mult)
  ultimately show ?thesis by simp
qed

lemma LittleEndian_Uint64_value:
  "LittleEndian_Uint64 [b0, b1, b2, b3, b4, b5, b6, b7] =
     ucast b0 + 2 ^ 8 * ucast b1 + 2 ^ 16 * ucast b2 + 2 ^ 24 * ucast b3
     + 2 ^ 32 * ucast b4 + 2 ^ 40 * ucast b5 + 2 ^ 48 * ucast b6 + 2 ^ 56 * ucast b7"
  by (simp add: LittleEndian_Uint64_def or_byte_shift)

lemma ReadFull_enough:
  "length buf \<le> length (sdata r) \<Longrightarrow> ReadFull r buf = (take (length buf) (sdata r), None)"
  by (simp add: ReadFull_def)

lemma readBlob_Inr:
  "readBlob L n soes w = (Inr blob, rest, w') \<Longrightarrow>
     \<exists>r. soes = SoeStream r # rest \<and> blob = take (unat n) (sdata r) \<and> w' = Close r w"
  by (auto simp: readBlob_def make_bytes_def ReadFull_def
      split: list.splits streamOrErr.splits sum.splits prod.splits option.splits if_splits)

lemma readZstdChunkedManifest_blobs_Inr:
  assumes "readZstdChunkedManifest_blobs L mca loc soes w = (Inr (m, ts, off), rest, w')"
  shows "off = offset loc
     \<and> (\<exists>r1 rest1. soes = SoeStream r1 # rest1
          \<and> decodeAndValidateBlob L (take (unat (length_c loc)) (sdata r1)) (lengthUncompressed loc) mca = Inr m
          \<and> (if offsetTarSplit loc = 0 then ts = [] \<and> rest = rest1
              else (\<exists>r2. rest1 = SoeStream r2 # rest
                    \<and> decodeAndValidateBlob L (take (unat (lengthTarSplit loc)) (sdata r2))
                         (lengthUncompressedTarSplit loc) (tarSplitChecksumAnnotation loc) = Inr ts)))"
proof -
  obtain b1 rest1 w1 where rb1: "readBlob L (length_c loc) soes w = (b1, rest1, w1)"
    by (cases "readBlob L (length_c loc) soes w") auto
  with assms obtain manifest where b1: "b1 = Inr manifest"
    by (cases b1) (auto simp: readZstdChunkedManifest_blobs_def)
  from readBlob_Inr [OF rb1 [unfolded b1]] obtain r1 where
    r1: "soes = SoeStream r1 # rest1" "manifest = take (unat (length_c loc)) (sdata r1)"
    by blast
  from assms rb1 b1 obtain decodedBlob where
    d1: "decodeAndValidateBlob L manifest (lengthUncompressed loc) mca = Inr decodedBlob"
    by (cases "decodeAndValidateBlob L manifest (lengthUncompressed loc) mca")
       (auto simp: readZstdChunkedManifest_blobs_def)
  show ?thesis
  proof (cases "offsetTarSplit loc = 0")
    case True
    with assms rb1 b1 d1 r1 show ?thesis
      by (auto simp: readZstdChunkedManifest_blobs_def)
  next
    case False
    then have pos: "0 < offsetTarSplit loc" by (simp add: word_gt_0)
    obtain b2 rest2 w2 where rb2: "readBlob L (lengthTarSplit loc) rest1 w1 = (b2, rest2, w2)"
      by (cases "readBlob L (lengthTarSplit loc) rest1 w1") auto
    with assms rb1 b1 d1 pos obtain tarSplit where b2: "b2 = Inr tarSplit"
      by (cases b2) (auto simp: readZstdChunkedManifest_blobs_def)
    from readBlob_Inr [OF rb2 [unfolded b2]] obtain r2 where
      r2: "rest1 = SoeStream r2 # rest2" "tarSplit = take (unat (lengthTarSplit loc)) (sdata r2)"
      by blast
    from assms rb1 b1 d1 pos rb2 b2 r1 r2 False show ?thesis
      by (auto simp: readZstdChunkedManifest_blobs_def split: sum.splits)
  qed
qed

lemma readZstdChunkedManifest_fetch_Inr:
  assumes "readZstdChunkedManifest_fetch L S mca loc w = (Inr (m, ts, off), w')"
  shows "fetch_checks L loc \<and> off = offset loc
     \<and> (\<exists>r1 rest1. S (length (fetches w)) (chunks_of loc) = Inr (SoeStream r1 # rest1)
          \<and> decodeAndValidateBlob L (take (unat (length_c loc)) (sdata r1)) (lengthUncompressed loc) mca = Inr m
          \<and> (if offsetTarSplit loc = 0 then ts = []
              else (\<exists>r2 rest. rest1 = SoeStream r2 # rest
                    \<and> decodeAndValidateBlob L (take (unat (lengthTarSplit loc)) (sdata r2))
                         (lengthUncompressedTarSplit loc) (tarSplitChecksumAnnotation loc) = Inr ts)))"
proof -
  from assms have chk: "fetch_checks L loc"
    by (auto simp: readZstdChunkedManifest_fetch_def fetch_checks_def split: if_splits)
  from assms chk obtain soes where s: "S (length (fetches w)) (chunks_of loc) = Inr soes"
    by (cases "S (length (fetches w)) (chunks_of loc)")
       (auto simp: readZstdChunkedManifest_fetch_def fetch_checks_def getBlobAt_def GetBlobAt_def)
  define w1 where "w1 = w\<lparr>fetches := fetches w @ [chunks_of loc],
                          opened := opened w @ streams_of soes\<rparr>"
  have g: "getBlobAt S (chunks_of loc) w = (Inr soes, w1)"
    using s by (simp add: getBlobAt_def GetBlobAt_def w1_def)
  obtain r2 rest w2 where b: "readZstdChunkedManifest_blobs L mca loc soes w1 = (r2, rest, w2)"
    by (cases "readZstdChunkedManifest_blobs L mca loc soes w1") auto
  from assms chk g b have "r2 = Inr (m, ts, off)"
    by (auto simp: readZstdChunkedManifest_fetch_def fetch_checks_def
        split: sum.splits option.splits prod.splits)
  from readZstdChunkedManifest_blobs_Inr [OF b [unfolded this]] chk s show ?thesis
    by (auto split: if_splits)
qed

lemma readEstargzChunkedManifest_footer_world:
  "readEstargzChunkedManifest_footer soes footer e w = (footer', e', w') \<Longrightarrow>
     fetches w' = fetches w \<and> opened w' = opened w \<and> closed w' = closed w @ streams_of soes"
  by (induction soes footer e w rule: readEstargzChunkedManifest_footer.induct)
     (auto split: prod.splits)

lemma readEstargzChunkedManifest_toc_world:
  "readEstargzChunkedManifest_toc L s mu w = (e', mu', w') \<Longrightarrow> w' = Close s w"
  by (auto simp: readEstargzChunkedManifest_toc_def split: sum.splits prod.splits option.splits if_splits)

lemma readEstargzChunkedManifest_loop_world:
  "readEstargzChunkedManifest_loop L soes mu e w = (mu', e', w') \<Longrightarrow>
     fetches w' = fetches w \<and> opened w' = opened w \<and> closed w' = closed w @ streams_of soes"
proof (induction L soes mu e w rule: readEstargzChunkedManifest_loop.induct)
  case (2 L s rest mu err w)
  obtain e1 mu1 w1 where t: "readEstargzChunkedManifest_toc L s mu w = (e1, mu1, w1)"
    by (cases "readEstargzChunkedManifest_toc L s mu w") auto
  from readEstargzChunkedManifest_toc_world [OF t] have w1: "w1 = Close s w" .
  from "2.prems" t
  have "readEstargzChunkedManifest_loop L rest mu1 (if err = None then e1 else err) w1 = (mu', e', w')"
    by simp
  from "2.IH" [OF t [symmetric] refl this] w1 show ?case by simp
qed auto

lemma readZstdChunkedManifest_fetch_closes_all:
  "readZstdChunkedManifest_fetch L S mca loc w = (res, w') \<Longrightarrow>
     \<exists>xs. opened w' = opened w @ xs \<and> closed w' = closed w @ xs"
  using readZstdChunkedManifest_fetch_world [of L S mca loc w res w'] by simp

lemma readEstargzChunkedManifest_closes_all:
  assumes "readEstargzChunkedManifest L S blobSize annotations w = (res, w')"
  shows "\<exists>xs. opened w' = opened w @ xs \<and> closed w' = closed w @ xs"
proof (cases "sint blobSize \<le> 51")
  case True
  with assms show ?thesis by (simp add: readEstargzChunkedManifest_def)
next
  case False
  let ?c1 = "\<lparr>Offset = blobSize - 51, Length = 51\<rparr>"
  show ?thesis
  proof (cases "S (length (fetches w)) [?c1]")
    case (Inl err)
    with assms False show ?thesis
      by (auto simp: readEstargzChunkedManifest_def getBlobAt_def GetBlobAt_def)
  next
    case (Inr soes)
    define w1 where "w1 = w\<lparr>fetches := fetches w @ [[?c1]], opened := opened w @ streams_of soes\<rparr>"
    have g1: "getBlobAt S [?c1] w = (Inr soes, w1)"
      using Inr by (simp add: getBlobAt_def GetBlobAt_def w1_def)
    obtain footer e w2 where f: "readEstargzChunkedManifest_footer soes (replicate 51 0) None w1 = (footer, e, w2)"
      by (cases "readEstargzChunkedManifest_footer soes (replicate 51 0) None w1") auto
    from readEstargzChunkedManifest_footer_world [OF f]
    have w2: "opened w2 = opened w @ streams_of soes" "closed w2 = closed w @ streams_of soes"
      "fetches w2 = fetches w @ [[?c1]]"
      by (simp_all add: w1_def)
    show ?thesis
    proof (cases "strconv_ParseInt L (map (\<lambda>b. char_of (unat b)) (slice 16 32 footer))")
      case (Inl err)
      with assms False g1 f have "w' = w2" by (simp add: readEstargzChunkedManifest_def)
      with w2 show ?thesis by simp
    next
      case p: (Inr tocOffset)
      let ?c2 = "\<lparr>Offset = tocOffset, Length = blobSize - 51 - tocOffset\<rparr>"
      show ?thesis
      proof (cases "int maxTocSize < sint (blobSize - 51 - tocOffset)")
        case True
        with assms False g1 f p have "w' = w2" by (simp add: readEstargzChunkedManifest_def)
        with w2 show ?thesis by simp
      next
        case small: False
        show ?thesis
        proof (cases "S (length (fetches w2)) [?c2]")
          case (Inl err)
          with assms False g1 f p small
          have "w' = w2\<lparr>fetches := fetches w2 @ [[?c2]]\<rparr>"
            by (simp add: readEstargzChunkedManifest_def getBlobAt_def GetBlobAt_def)
          with w2 show ?thesis by simp
        next
          case s2: (Inr soes2)
          define w3 where "w3 = w2\<lparr>fetches := fetches w2 @ [[?c2]], opened := opened w2 @ streams_of soes2\<rparr>"
          have g2: "getBlobAt S [?c2] w2 = (Inr soes2, w3)"
            using s2 by (simp add: getBlobAt_def GetBlobAt_def w3_def)
          obtain mu e4 w4 where l: "readEstargzChunkedManifest_loop L soes2 None None w3 = (mu, e4, w4)"
            by (cases "readEstargzChunkedManifest_loop L soes2 None None w3") auto
          from readEstargzChunkedManifest_loop_world [OF l] w2
          have w4: "opened w4 = opened w @ (streams_of soes @ streams_of soes2)"
            "closed w4 = closed w @ (streams_of soes @ streams_of soes2)"
            by (simp_all add: w3_def)
          from assms False g1 f p small g2 l have "w' = w4"
            by (auto simp: readEstargzChunkedManifest_def split: option.splits sum.splits if_splits)
          with w4 show ?thesis by blast
        qed
      qed
    qed
  qed
qed

lemma sint_sub_no_overflow:
  fixes a b :: i64
  assumes "- (2 ^ 63) \<le> sint a - sint b" "sint a - sint b < 2 ^ 63"
  shows "sint (a - b) = sint a - sint b"
proof -
  have "sint (a - b) = signed_take_bit (LENGTH(64) - 1) (sint a - sint b)"
    by (rule sint_word_diff)
  also have "\<dots> = sint a - sint b"
    using assms by (intro signed_take_bit_int_eq_self) simp_all
  finally show ?thesis .
qed

lemma estargz_size:
  fixes blobSize tocOffset :: i64
  assumes "\<not> sint blobSize \<le> 51" "sint blobSize - 51 \<le> sint tocOffset"
  shows "sint (blobSize - 51 - tocOffset) = sint blobSize - 51 - sint tocOffset"
proof -
  have b: "sint blobSize < 2 ^ 63" "- (2 ^ 63) \<le> sint tocOffset" "sint tocOffset < 2 ^ 63"
    using sint_lt [of blobSize] sint_ge [of tocOffset] sint_lt [of tocOffset] by simp_all
  have s51: "sint (51 :: i64) = 51" by simp
  have 1: "sint (blobSize - 51) = sint blobSize - 51"
    using sint_sub_no_overflow [of blobSize 51] assms(1) b s51 by simp
  have "sint (blobSize - 51 - tocOffset) = sint (blobSize - 51) - sint tocOffset"
    using assms b 1 by (intro sint_sub_no_overflow) simp_all
  with 1 show ?thesis by simp
qed

lemma parseE: "toy_ParseInt (map (\<lambda>b. char_of (unat b)) (slice 16 32 footerE)) = Inr 100"
  by (simp add: toy_ParseInt_def hexval_def slice_def footerE_def)

lemma footer_stage:
  "ReadFull \<lparr>sid = 0, sdata = footerE, sfail = None\<rparr> (replicate 51 0) = (footerE, None)"
  by (simp add: ReadFull_def footerE_def)

subsection \<open>Locating the manifest\<close>

text \<open>
  Claim C6: without a metadata annotation, \<^verbatim>\<open>readZstdChunkedManifest\<close> requests the 56
  bytes at \<open>blobSize - 56\<close>; the call fails with "invalid magic number" unless bytes
  [48, 56) of the footer equal the magic constant, whatever the other fields are, and
  otherwise goes on with the offset, the compressed length, the uncompressed length and
  the manifest type that are the little-endian 64-bit values of bytes [0, 8), [8, 16),
  [16, 24) and [24, 32): the type and the two lengths are the ones checked, the request
  that follows asks for that offset and that compressed length, and a call that succeeds
  returns that offset.
\<close>

theorem footer_layout:
  assumes "\<not> sint blobSize \<le> 56"
    and "lookup annotations (ManifestChecksumKey L) \<noteq> []"
    and "lookup annotations (ManifestInfoKey L) = []"
    and "S (length (fetches w)) [\<lparr>Offset = blobSize - 56, Length = 56\<rparr>] = Inr (SoeStream r # rest)"
    and "56 \<le> length (sdata r)"
  shows "readZstdChunkedManifest L S blobSize annotations w =
     (let footer = take 56 (sdata r);
          w1 = w\<lparr>fetches := fetches w @ [[\<lparr>Offset = blobSize - 56, Length = 56\<rparr>]],
                 opened := opened w @ r # streams_of rest\<rparr>
      in if slice 48 56 footer = ZstdChunkedFrameMagic L
         then readZstdChunkedManifest_fetch L S (lookup annotations (ManifestChecksumKey L))
                \<lparr>offset = LittleEndian_Uint64 (slice 0 8 footer),
                 length_c = LittleEndian_Uint64 (slice 8 16 footer),
                 lengthUncompressed = LittleEndian_Uint64 (slice 16 24 footer),
                 manifestType = LittleEndian_Uint64 (slice 24 32 footer),
                 offsetTarSplit = 0, lengthTarSplit = 0, lengthUncompressedTarSplit = 0,
                 tarSplitChecksumAnnotation = []\<rparr> w1
         else (Inl InvalidMagicNumber, w1))
   \<and> (\<forall>res wf. readZstdChunkedManifest L S blobSize annotations w = (res, wf) \<longrightarrow>
         (let footer = take 56 (sdata r) in
          if slice 48 56 footer = ZstdChunkedFrameMagic L
          then fetches wf = fetches w @ [[\<lparr>Offset = blobSize - 56, Length = 56\<rparr>]] @
                 (if LittleEndian_Uint64 (slice 24 32 footer) = ManifestTypeCRFS L
                     \<and> unat (LittleEndian_Uint64 (slice 8 16 footer)) \<le> maxTocSize
                     \<and> unat (LittleEndian_Uint64 (slice 16 24 footer)) \<le> maxTocSize
                  then [[\<lparr>Offset = LittleEndian_Uint64 (slice 0 8 footer),
                          Length = LittleEndian_Uint64 (slice 8 16 footer)\<rparr>]]
                  else [])
               \<and> (\<forall>m ts off. res = Inr (m, ts, off) \<longrightarrow>
                     off = LittleEndian_Uint64 (slice 0 8 footer) \<and> ts = [])
          else res = Inl InvalidMagicNumber
               \<and> fetches wf = fetches w @ [[\<lparr>Offset = blobSize - 56, Length = 56\<rparr>]]))"
proof -
  let ?footer = "take 56 (sdata r)"
  let ?w1 = "w\<lparr>fetches := fetches w @ [[\<lparr>Offset = blobSize - 56, Length = 56\<rparr>]],
                 opened := opened w @ r # streams_of rest\<rparr>"
  let ?loc = "\<lparr>offset = LittleEndian_Uint64 (slice 0 8 ?footer),
                 length_c = LittleEndian_Uint64 (slice 8 16 ?footer),
                 lengthUncompressed = LittleEndian_Uint64 (slice 16 24 ?footer),
                 manifestType = LittleEndian_Uint64 (slice 24 32 ?footer),
                 offsetTarSplit = 0, lengthTarSplit = 0, lengthUncompressedTarSplit = 0,
                 tarSplitChecksumAnnotation = []\<rparr>"
  have rf: "ReadFull r (replicate 56 0) = (?footer, None)"
    using ReadFull_enough [of "replicate 56 0" r] assms(5) by simp
  have len: "length (slice 48 56 ?footer) = 8"
    using assms(5) by (simp add: slice_def)
  have magic: "isZstdChunkedFrameMagic L (slice 48 56 ?footer)
      \<longleftrightarrow> slice 48 56 ?footer = ZstdChunkedFrameMagic L"
    using len by (auto simp: isZstdChunkedFrameMagic_def)
  have eq: "readZstdChunkedManifest L S blobSize annotations w =
     (if slice 48 56 ?footer = ZstdChunkedFrameMagic L
      then readZstdChunkedManifest_fetch L S (lookup annotations (ManifestChecksumKey L)) ?loc ?w1
      else (Inl InvalidMagicNumber, ?w1))"
    using assms(1-4) rf magic
    by (simp add: readZstdChunkedManifest_def readZstdChunkedManifest_locate_def
        FooterSizeSupported_def GetBlobAt_def Let_def)
  have obs: "if slice 48 56 ?footer = ZstdChunkedFrameMagic L
          then fetches wf = fetches w @ [[\<lparr>Offset = blobSize - 56, Length = 56\<rparr>]] @
                 (if LittleEndian_Uint64 (slice 24 32 ?footer) = ManifestTypeCRFS L
                     \<and> unat (LittleEndian_Uint64 (slice 8 16 ?footer)) \<le> maxTocSize
                     \<and> unat (LittleEndian_Uint64 (slice 16 24 ?footer)) \<le> maxTocSize
                  then [[\<lparr>Offset = LittleEndian_Uint64 (slice 0 8 ?footer),
                          Length = LittleEndian_Uint64 (slice 8 16 ?footer)\<rparr>]]
                  else [])
               \<and> (\<forall>m ts off. res = Inr (m, ts, off) \<longrightarrow>
                     off = LittleEndian_Uint64 (slice 0 8 ?footer) \<and> ts = [])
          else res = Inl InvalidMagicNumber
               \<and> fetches wf = fetches w @ [[\<lparr>Offset = blobSize - 56, Length = 56\<rparr>]]"
    if run: "readZstdChunkedManifest L S blobSize annotations w = (res, wf)" for res wf
  proof (cases "slice 48 56 ?footer = ZstdChunkedFrameMagic L")
    case False
    with run eq show ?thesis by auto
  next
    case True
    with run eq have f: "readZstdChunkedManifest_fetch L S
        (lookup annotations (ManifestChecksumKey L)) ?loc ?w1 = (res, wf)"
      by simp
    from readZstdChunkedManifest_fetch_world [OF f]
    have fw: "fetches wf = fetches ?w1 @ (if fetch_checks L ?loc then [chunks_of ?loc] else [])"
      by blast
    have "off = LittleEndian_Uint64 (slice 0 8 ?footer) \<and> ts = []"
      if "res = Inr (m, ts, off)" for m ts off
      using readZstdChunkedManifest_fetch_Inr [OF f [unfolded that]] by auto
    with fw True show ?thesis
      by (simp add: fetch_checks_def chunks_of_def)
  qed
  from obs have "\<forall>res wf. readZstdChunkedManifest L S blobSize annotations w = (res, wf) \<longrightarrow>
         (if slice 48 56 ?footer = ZstdChunkedFrameMagic L
          then fetches wf = fetches w @ [[\<lparr>Offset = blobSize - 56, Length = 56\<rparr>]] @
                 (if LittleEndian_Uint64 (slice 24 32 ?footer) = ManifestTypeCRFS L
                     \<and> unat (LittleEndian_Uint64 (slice 8 16 ?footer)) \<le> maxTocSize
                     \<and> unat (LittleEndian_Uint64 (slice 16 24 ?footer)) \<le> maxTocSize
                  then [[\<lparr>Offset = LittleEndian_Uint64 (slice 0 8 ?footer),
                          Length = LittleEndian_Uint64 (slice 8 16 ?footer)\<rparr>]]
                  else [])
               \<and> (\<forall>m ts off. res = Inr (m, ts, off) \<longrightarrow>
                     off = LittleEndian_Uint64 (slice 0 8 ?footer) \<and> ts = [])
          else res = Inl InvalidMagicNumber
               \<and> fetches wf = fetches w @ [[\<lparr>Offset = blobSize - 56, Length = 56\<rparr>]])"
    by blast
  with eq show ?thesis unfolding Let_def by (rule conjI)
qed

theorem footer_layout_witness:
  "\<not> sint (10000000 :: i64) \<le> 56
   \<and> lookup ann_checksum (ManifestChecksumKey lib0) \<noteq> []
   \<and> lookup ann_checksum (ManifestInfoKey lib0) = []
   \<and> src0 footer_bad (length (fetches world0)) [\<lparr>Offset = 10000000 - 56, Length = 56\<rparr>]
       = Inr [SoeStream \<lparr>sid = 9999944, sdata = footer_bad, sfail = None\<rparr>]
   \<and> 56 \<le> length (sdata \<lparr>sid = 9999944, sdata = footer_bad, sfail = None\<rparr>)
   \<and> readZstdChunkedManifest lib0 (src0 footer_bad) 10000000 ann_checksum world0 =
       (Inl InvalidMagicNumber,
        \<lparr>fetches = [[\<lparr>Offset = 9999944, Length = 56\<rparr>]],
         opened = [\<lparr>sid = 9999944, sdata = footer_bad, sfail = None\<rparr>],
         closed = []\<rparr>)
   \<and> readZstdChunkedManifest lib0 (src0 footer0) 10000000 ann_checksum world0 =
       readZstdChunkedManifest_fetch lib0 (src0 footer0) ''hex:28b52ffd41''
         \<lparr>offset = 1000, length_c = 5, lengthUncompressed = 1, manifestType = 1,
          offsetTarSplit = 0, lengthTarSplit = 0, lengthUncompressedTarSplit = 0,
          tarSplitChecksumAnnotation = []\<rparr>
         \<lparr>fetches = [[\<lparr>Offset = 9999944, Length = 56\<rparr>]],
          opened = [\<lparr>sid = 9999944, sdata = footer0, sfail = None\<rparr>],
          closed = []\<rparr>"
proof -
  have h1: "\<not> sint (10000000 :: i64) \<le> 56" by simp
  have h2: "lookup ann_checksum (ManifestChecksumKey lib0) \<noteq> []"
    by (simp add: lookup_def ann_checksum_def lib0_def)
  have h3: "lookup ann_checksum (ManifestInfoKey lib0) = []"
    by (simp add: lookup_def ann_checksum_def lib0_def)
  have h4: "src0 footer_bad (length (fetches world0)) [\<lparr>Offset = 10000000 - 56, Length = 56\<rparr>]
       = Inr (SoeStream \<lparr>sid = 9999944, sdata = footer_bad, sfail = None\<rparr> # [])"
    by (simp add: src0_def)
  have h5: "56 \<le> length (sdata \<lparr>sid = 9999944, sdata = footer_bad, sfail = None\<rparr>)"
    by (simp add: footer_bad_def)
  have g4: "src0 footer0 (length (fetches world0)) [\<lparr>Offset = 10000000 - 56, Length = 56\<rparr>]
       = Inr (SoeStream \<lparr>sid = 9999944, sdata = footer0, sfail = None\<rparr> # [])"
    by (simp add: src0_def)
  have g5: "56 \<le> length (sdata \<lparr>sid = 9999944, sdata = footer0, sfail = None\<rparr>)"
    by (simp add: footer0_def)
  have bad: "readZstdChunkedManifest lib0 (src0 footer_bad) 10000000 ann_checksum world0 =
       (Inl InvalidMagicNumber,
        \<lparr>fetches = [[\<lparr>Offset = 9999944, Length = 56\<rparr>]],
         opened = [\<lparr>sid = 9999944, sdata = footer_bad, sfail = None\<rparr>],
         closed = []\<rparr>)"
    using footer_layout [where S = "src0 footer_bad" and w = world0, OF h1 h2 h3 h4 h5, THEN conjunct1]
    by (simp add: footer_bad_def slice_def lib0_def world0_def)
  have good: "readZstdChunkedManifest lib0 (src0 footer0) 10000000 ann_checksum world0 =
       readZstdChunkedManifest_fetch lib0 (src0 footer0) ''hex:28b52ffd41''
         \<lparr>offset = 1000, length_c = 5, lengthUncompressed = 1, manifestType = 1,
          offsetTarSplit = 0, lengthTarSplit = 0, lengthUncompressedTarSplit = 0,
          tarSplitChecksumAnnotation = []\<rparr>
         \<lparr>fetches = [[\<lparr>Offset = 9999944, Length = 56\<rparr>]],
          opened = [\<lparr>sid = 9999944, sdata = footer0, sfail = None\<rparr>],
          closed = []\<rparr>"
  proof -
    have tk: "take 56 footer0 = footer0" by (simp add: footer0_def)
    have mg: "slice 48 56 footer0 = ZstdChunkedFrameMagic lib0"
      by (simp add: footer0_def slice_def lib0_def)
    have f0: "LittleEndian_Uint64 (slice 0 8 footer0) = 1000"
      by (simp add: footer0_def slice_def LittleEndian_Uint64_def)
    have f1: "LittleEndian_Uint64 (slice 8 16 footer0) = 5"
      by (simp add: footer0_def slice_def LittleEndian_Uint64_def)
    have f2: "LittleEndian_Uint64 (slice 16 24 footer0) = 1"
      by (simp add: footer0_def slice_def LittleEndian_Uint64_def)
    have f3: "LittleEndian_Uint64 (slice 24 32 footer0) = 1"
      by (simp add: footer0_def slice_def LittleEndian_Uint64_def)
    have lk: "lookup ann_checksum (ManifestChecksumKey lib0) = ''hex:28b52ffd41''"
      by (simp add: lookup_def ann_checksum_def lib0_def)
    show ?thesis
      using footer_layout [where S = "src0 footer0" and w = world0, OF h1 h2 h3 g4 g5, THEN conjunct1]
      by (simp add: tk mg f0 f1 f2 f3 lk world0_def)
  qed
  from h1 h2 h3 h4 h5 bad good show ?thesis by simp
qed

text \<open>
  Claim C4: when the metadata annotation is there (with a value, which is how the code
  tests it), the location is the one the annotation spells out and is the same for every
  source, blob size and world: locating it requests nothing. The only request the call
  can send is the batched one for that location, and two sources that answer this
  request alike give the same result, whatever they hold as footer.
\<close>

theorem annotation_authoritative:
  assumes "\<not> sint blobSize \<le> 56"
    and "lookup annotations (ManifestChecksumKey L) \<noteq> []"
    and "annotations (ManifestInfoKey L) = Some v"
    and "v \<noteq> []"
  shows "\<exists>res.
      (\<forall>S' blobSize' w'. readZstdChunkedManifest_locate L S' blobSize' annotations w' = (res, w'))
    \<and> (\<forall>loc. res = Inr loc \<longrightarrow>
          Sscanf4 L v = Inr (offset loc, length_c loc, lengthUncompressed loc, manifestType loc))
    \<and> readZstdChunkedManifest L S blobSize annotations w =
        (case res of
           Inl err \<Rightarrow> (Inl err, w)
         | Inr loc \<Rightarrow>
             readZstdChunkedManifest_fetch L S (lookup annotations (ManifestChecksumKey L)) loc w)
    \<and> (\<forall>r wf. readZstdChunkedManifest L S blobSize annotations w = (r, wf) \<longrightarrow>
          fetches wf = fetches w \<or> (\<exists>loc. res = Inr loc \<and> fetches wf = fetches w @ [chunks_of loc]))
    \<and> (\<forall>S'. (\<forall>loc. res = Inr loc \<longrightarrow>
                 S' (length (fetches w)) (chunks_of loc) = S (length (fetches w)) (chunks_of loc)) \<longrightarrow>
          readZstdChunkedManifest L S' blobSize annotations w
            = readZstdChunkedManifest L S blobSize annotations w)"
proof -
  define res where "res = fst (readZstdChunkedManifest_locate L S blobSize annotations w)"
  have lk: "lookup annotations (ManifestInfoKey L) = v"
    using assms(3) by (simp add: lookup_def)
  have loc: "readZstdChunkedManifest_locate L S' blobSize' annotations w' = (res, w')"
    for S' blobSize' w'
    unfolding res_def using lk assms(4)
    by (simp add: readZstdChunkedManifest_locate_def split: sum.splits option.splits prod.splits)
  have fields: "Sscanf4 L v = Inr (offset loc, length_c loc, lengthUncompressed loc, manifestType loc)"
    if "res = Inr loc" for loc
    using that lk assms(4) unfolding res_def
    by (auto simp: readZstdChunkedManifest_locate_def split: sum.splits option.splits prod.splits)
  have run: "readZstdChunkedManifest L S' blobSize annotations w =
        (case res of
           Inl err \<Rightarrow> (Inl err, w)
         | Inr loc \<Rightarrow>
             readZstdChunkedManifest_fetch L S' (lookup annotations (ManifestChecksumKey L)) loc w)"
    for S'
    using assms(1,2) loc [of S' blobSize w]
    by (simp add: readZstdChunkedManifest_def FooterSizeSupported_def split: sum.splits)
  have fet: "fetches wf = fetches w \<or> (\<exists>loc. res = Inr loc \<and> fetches wf = fetches w @ [chunks_of loc])"
    if "readZstdChunkedManifest L S blobSize annotations w = (r, wf)" for r wf
  proof (cases res)
    case (Inl e)
    with that run [of S] show ?thesis by simp
  next
    case (Inr loc)
    with that run [of S]
    have "readZstdChunkedManifest_fetch L S (lookup annotations (ManifestChecksumKey L)) loc w = (r, wf)"
      by simp
    from readZstdChunkedManifest_fetch_world [OF this] Inr show ?thesis
      by (auto split: if_splits)
  qed
  have ind: "readZstdChunkedManifest L S' blobSize annotations w
            = readZstdChunkedManifest L S blobSize annotations w"
    if "\<forall>loc. res = Inr loc \<longrightarrow>
          S' (length (fetches w)) (chunks_of loc) = S (length (fetches w)) (chunks_of loc)" for S'
  proof (cases res)
    case (Inl e)
    then show ?thesis by (simp add: run)
  next
    case (Inr loc)
    with that have "S' (length (fetches w)) (chunks_of loc) = S (length (fetches w)) (chunks_of loc)"
      by simp
    from readZstdChunkedManifest_fetch_cong [where S' = S' and S = S and w = w and loc = loc, OF this]
      Inr show ?thesis
      by (simp add: run)
  qed
  from loc fields run [of S] fet ind show ?thesis by blast
qed

theorem annotation_authoritative_witness:
  "\<not> sint (10000000 :: i64) \<le> 56
   \<and> lookup ann_position (ManifestChecksumKey lib0) \<noteq> []
   \<and> ann_position (ManifestInfoKey lib0) = Some ''2000:5:1:1''
   \<and> ''2000:5:1:1'' \<noteq> []
   \<and> Sscanf4 lib0 ''2000:5:1:1'' = Inr (2000, 5, 1, 1)
   \<and> LittleEndian_Uint64 (slice 0 8 footer0) = 1000
   \<and> readZstdChunkedManifest lib0 (src0 footer0) 10000000 ann_position world0 =
       (Inr ([0x41], [], 2000),
        \<lparr>fetches = [[\<lparr>Offset = 2000, Length = 5\<rparr>]],
         opened = [\<lparr>sid = 2000, sdata = blob0, sfail = None\<rparr>],
         closed = [\<lparr>sid = 2000, sdata = blob0, sfail = None\<rparr>]\<rparr>)
   \<and> readZstdChunkedManifest lib0 (src0 footer_bad) 10000000 ann_position world0
       = readZstdChunkedManifest lib0 (src0 footer0) 10000000 ann_position world0"
proof -
  have h1: "\<not> sint (10000000 :: i64) \<le> 56" by simp
  have h2: "lookup ann_position (ManifestChecksumKey lib0) \<noteq> []"
    by (simp add: lookup_def ann_position_def lib0_def)
  have h3: "ann_position (ManifestInfoKey lib0) = Some ''2000:5:1:1''"
    by (simp add: ann_position_def lib0_def)
  have h4: "''2000:5:1:1'' \<noteq> []" by simp
  have sc: "Sscanf4 lib0 ''2000:5:1:1'' = Inr (2000, 5, 1, 1)"
    by (simp add: lib0_def toy_Sscanf4_def scan_field_def scan_colon_def decval_def)
  have le: "LittleEndian_Uint64 (slice 0 8 footer0) = 1000"
    by (simp add: LittleEndian_Uint64_def slice_def footer0_def)
  from annotation_authoritative [where S = "src0 footer0" and w = world0, OF h1 h2 h3 h4]
  obtain res where
    loc: "\<forall>S' blobSize' w'. readZstdChunkedManifest_locate lib0 S' blobSize' ann_position w' = (res, w')"
    and fields: "\<forall>loc. res = Inr loc \<longrightarrow>
          Sscanf4 lib0 ''2000:5:1:1'' = Inr (offset loc, length_c loc, lengthUncompressed loc, manifestType loc)"
    and run: "readZstdChunkedManifest lib0 (src0 footer0) 10000000 ann_position world0 =
        (case res of
           Inl err \<Rightarrow> (Inl err, world0)
         | Inr loc \<Rightarrow>
             readZstdChunkedManifest_fetch lib0 (src0 footer0) (lookup ann_position (ManifestChecksumKey lib0)) loc world0)"
    and ind: "\<forall>S'. (\<forall>loc. res = Inr loc \<longrightarrow>
                 S' (length (fetches world0)) (chunks_of loc) = src0 footer0 (length (fetches world0)) (chunks_of loc)) \<longrightarrow>
          readZstdChunkedManifest lib0 S' 10000000 ann_position world0
            = readZstdChunkedManifest lib0 (src0 footer0) 10000000 ann_position world0"
    by blast
  have res: "res = Inr \<lparr>offset = 2000, length_c = 5, lengthUncompressed = 1, manifestType = 1,
       offsetTarSplit = 0, lengthTarSplit = 0, lengthUncompressedTarSplit = 0,
       tarSplitChecksumAnnotation = []\<rparr>"
    using loc [rule_format, of "src0 footer0" 10000000 world0] sc
    by (simp add: readZstdChunkedManifest_locate_def lookup_def ann_position_def lib0_def)
  have val: "readZstdChunkedManifest lib0 (src0 footer0) 10000000 ann_position world0 =
       (Inr ([0x41], [], 2000),
        \<lparr>fetches = [[\<lparr>Offset = 2000, Length = 5\<rparr>]],
         opened = [\<lparr>sid = 2000, sdata = blob0, sfail = None\<rparr>],
         closed = [\<lparr>sid = 2000, sdata = blob0, sfail = None\<rparr>]\<rparr>)"
    unfolding run res
    by (simp add: zstd_defs toy_defs world0_def src0_def blob0_def ann_position_def)
  have same: "readZstdChunkedManifest lib0 (src0 footer_bad) 10000000 ann_position world0
       = readZstdChunkedManifest lib0 (src0 footer0) 10000000 ann_position world0"
    using ind [rule_format, of "src0 footer_bad"] res
    by (simp add: src0_def chunks_of_def)
  from h1 h2 h3 h4 sc le val same show ?thesis by blast
qed

subsection \<open>The tar-split stream\<close>



subsection \<open>The size limit\<close>

text \<open>
  Claim C3, as stated: in both formats a declared compressed or uncompressed length above
  50 MiB fails with "manifest too big" before any request beyond the footer and before
  any decompression. It does not hold for the uncompressed length of the gzip-family
  format: that length is the size in the archive header, which is only read from the
  fetched and decompressed stream. Here the blob has 200 bytes and its footer gives the
  offset 100; the range [100, 149) is requested, the gzip and archive readers are opened
  on it, and the entry declares 52428801 bytes. The call then ends with "manifest not
  found".
\<close>

theorem estargz_entry_size_checked_late_counterexample:
  "readEstargzChunkedManifest lib0 srcE 200 Map.empty world0 =
     (Inl ManifestNotFound,
      \<lparr>fetches = [[\<lparr>Offset = 149, Length = 51\<rparr>], [\<lparr>Offset = 100, Length = 49\<rparr>]],
       opened = [\<lparr>sid = 0, sdata = footerE, sfail = None\<rparr>, \<lparr>sid = 2, sdata = tocE, sfail = None\<rparr>],
       closed = [\<lparr>sid = 0, sdata = footerE, sfail = None\<rparr>, \<lparr>sid = 2, sdata = tocE, sfail = None\<rparr>]\<rparr>)
   \<and> pgzip_NewReader lib0 \<lparr>sid = 2, sdata = tocE, sfail = None\<rparr>
       = Inr \<lparr>sid = 2, sdata = drop 2 tocE, sfail = None\<rparr>
   \<and> tar_Next lib0 \<lparr>sid = 2, sdata = drop 2 tocE, sfail = None\<rparr>
       = Inr (52428801, \<lparr>sid = 2, sdata = [], sfail = None\<rparr>)
   \<and> maxTocSize < 52428801"
proof -
  have gz: "pgzip_NewReader lib0 \<lparr>sid = 2, sdata = tocE, sfail = None\<rparr>
       = Inr \<lparr>sid = 2, sdata = drop 2 tocE, sfail = None\<rparr>"
    by (simp add: lib0_def toy_gunzip_def tocE_def)
  have tar: "tar_Next lib0 \<lparr>sid = 2, sdata = drop 2 tocE, sfail = None\<rparr>
       = Inr (52428801, \<lparr>sid = 2, sdata = [], sfail = None\<rparr>)"
    by (simp add: lib0_def toy_tar_Next_def tocE_def LittleEndian_Uint64_def)
  have big: "maxTocSize < 52428801" by (simp add: maxTocSize_def)
  have toc: "readEstargzChunkedManifest_toc lib0 \<lparr>sid = 2, sdata = tocE, sfail = None\<rparr> None w
      = (Some ManifestTooBig, None, Close \<lparr>sid = 2, sdata = tocE, sfail = None\<rparr> w)" for w
    using gz tar big by (simp add: readEstargzChunkedManifest_toc_def)
  have p: "strconv_ParseInt lib0 (map (\<lambda>b. char_of (unat b)) (slice 16 32 footerE)) = Inr 100"
    using parseE by (simp add: lib0_def)
  have "readEstargzChunkedManifest lib0 srcE 200 Map.empty world0 =
     (Inl ManifestNotFound,
      \<lparr>fetches = [[\<lparr>Offset = 149, Length = 51\<rparr>], [\<lparr>Offset = 100, Length = 49\<rparr>]],
       opened = [\<lparr>sid = 0, sdata = footerE, sfail = None\<rparr>, \<lparr>sid = 2, sdata = tocE, sfail = None\<rparr>],
       closed = [\<lparr>sid = 0, sdata = footerE, sfail = None\<rparr>, \<lparr>sid = 2, sdata = tocE, sfail = None\<rparr>]\<rparr>)"
    by (simp add: readEstargzChunkedManifest_def getBlobAt_def GetBlobAt_def srcE_def world0_def
        footer_stage p toc maxTocSize_def Close_def)
  with gz tar big show ?thesis by blast
qed

text \<open>
  Claim C3, amended. Native format: once the location is known, from the annotation or
  from the footer, with the recognised manifest type, a compressed or an uncompressed
  length above 50 MiB makes the call fail with "manifest too big"; nothing has been
  requested but, at most, the footer, and no stream of a manifest exists to decompress.
  Gzip-family format: when the size derived from the footer, \<open>blobSize - 51 - tocOffset\<close>,
  is above 50 MiB the call fails with "manifest too big" and only the footer has been
  requested. The size of the archive entry is checked by the reader of a fetched stream,
  after the gzip and archive headers have been read and before the payload is: an entry
  above 50 MiB makes that reader stop with "manifest too big", and the variable
  \<^verbatim>\<open>manifestUncompressed\<close> is left as it was.
\<close>

theorem manifest_too_big:
  "(\<not> sint blobSize \<le> 56 \<and> lookup annotations (ManifestChecksumKey L) \<noteq> []
      \<and> readZstdChunkedManifest_locate L S blobSize annotations w = (Inr loc, w1)
      \<and> manifestType loc = ManifestTypeCRFS L
      \<and> (maxTocSize < unat (length_c loc) \<or> maxTocSize < unat (lengthUncompressed loc))
    \<longrightarrow> readZstdChunkedManifest L S blobSize annotations w = (Inl ManifestTooBig, w1)
       \<and> (fetches w1 = fetches w
            \<or> fetches w1 = fetches w @ [[\<lparr>Offset = blobSize - 56, Length = 56\<rparr>]])
       \<and> closed w1 = closed w)
   \<and> (\<not> sint blobSize \<le> 51
      \<and> getBlobAt S [\<lparr>Offset = blobSize - 51, Length = 51\<rparr>] w = (Inr soes, w1)
      \<and> readEstargzChunkedManifest_footer soes (replicate 51 0) None w1 = (footer, e, w2)
      \<and> strconv_ParseInt L (map (\<lambda>b. char_of (unat b)) (slice 16 32 footer)) = Inr tocOffset
      \<and> int maxTocSize < sint (blobSize - 51 - tocOffset)
    \<longrightarrow> readEstargzChunkedManifest L S blobSize annotations w = (Inl ManifestTooBig, w2)
       \<and> fetches w2 = fetches w @ [[\<lparr>Offset = blobSize - 51, Length = 51\<rparr>]])
   \<and> (pgzip_NewReader L s = Inr r \<and> tar_Next L r = Inr (headerSize, aTar) \<and> maxTocSize < headerSize
    \<longrightarrow> readEstargzChunkedManifest_toc L s mu w = (Some ManifestTooBig, mu, Close s w))"
proof (intro conjI impI)
  assume a: "\<not> sint blobSize \<le> 56 \<and> lookup annotations (ManifestChecksumKey L) \<noteq> []
      \<and> readZstdChunkedManifest_locate L S blobSize annotations w = (Inr loc, w1)
      \<and> manifestType loc = ManifestTypeCRFS L
      \<and> (maxTocSize < unat (length_c loc) \<or> maxTocSize < unat (lengthUncompressed loc))"
  then show "readZstdChunkedManifest L S blobSize annotations w = (Inl ManifestTooBig, w1)"
    by (auto simp: readZstdChunkedManifest_def readZstdChunkedManifest_fetch_def FooterSizeSupported_def)
  from a have loc: "readZstdChunkedManifest_locate L S blobSize annotations w = (Inr loc, w1)"
    by simp
  then show "fetches w1 = fetches w
            \<or> fetches w1 = fetches w @ [[\<lparr>Offset = blobSize - 56, Length = 56\<rparr>]]"
    by (auto simp: readZstdChunkedManifest_locate_def GetBlobAt_def Let_def FooterSizeSupported_def
        split: if_splits sum.splits option.splits prod.splits list.splits streamOrErr.splits)
  from loc show "closed w1 = closed w"
    by (auto simp: readZstdChunkedManifest_locate_def GetBlobAt_def Let_def FooterSizeSupported_def
        split: if_splits sum.splits option.splits prod.splits list.splits streamOrErr.splits)
next
  assume a: "\<not> sint blobSize \<le> 51
      \<and> getBlobAt S [\<lparr>Offset = blobSize - 51, Length = 51\<rparr>] w = (Inr soes, w1)
      \<and> readEstargzChunkedManifest_footer soes (replicate 51 0) None w1 = (footer, e, w2)
      \<and> strconv_ParseInt L (map (\<lambda>b. char_of (unat b)) (slice 16 32 footer)) = Inr tocOffset
      \<and> int maxTocSize < sint (blobSize - 51 - tocOffset)"
  then show "readEstargzChunkedManifest L S blobSize annotations w = (Inl ManifestTooBig, w2)"
    by (simp add: readEstargzChunkedManifest_def)
  from a have "fetches w1 = fetches w @ [[\<lparr>Offset = blobSize - 51, Length = 51\<rparr>]]"
    by (auto simp: getBlobAt_def GetBlobAt_def Let_def split: sum.splits)
  moreover from a have "fetches w2 = fetches w1"
    using readEstargzChunkedManifest_footer_world by blast
  ultimately show "fetches w2 = fetches w @ [[\<lparr>Offset = blobSize - 51, Length = 51\<rparr>]]"
    by simp
next
  assume "pgzip_NewReader L s = Inr r \<and> tar_Next L r = Inr (headerSize, aTar) \<and> maxTocSize < headerSize"
  then show "readEstargzChunkedManifest_toc L s mu w = (Some ManifestTooBig, mu, Close s w)"
    by (simp add: readEstargzChunkedManifest_toc_def)
qed

theorem manifest_too_big_witness:
  "\<not> sint (10000000 :: i64) \<le> 56
   \<and> lookup ann_big (ManifestChecksumKey lib0) \<noteq> []
   \<and> readZstdChunkedManifest_locate lib0 (src0 footer0) 10000000 ann_big world0
       = (Inr \<lparr>offset = 2000, length_c = 52428801, lengthUncompressed = 1, manifestType = 1,
               offsetTarSplit = 0, lengthTarSplit = 0, lengthUncompressedTarSplit = 0,
               tarSplitChecksumAnnotation = []\<rparr>, world0)
   \<and> maxTocSize < unat (52428801 :: u64)
   \<and> readZstdChunkedManifest lib0 (src0 footer0) 10000000 ann_big world0 = (Inl ManifestTooBig, world0)
   \<and> \<not> sint (100000000 :: i64) \<le> 51
   \<and> int maxTocSize < sint (100000000 - 51 - 100 :: i64)
   \<and> readEstargzChunkedManifest lib0 srcE 100000000 Map.empty world0 =
       (Inl ManifestTooBig,
        \<lparr>fetches = [[\<lparr>Offset = 99999949, Length = 51\<rparr>]],
         opened = [\<lparr>sid = 0, sdata = footerE, sfail = None\<rparr>],
         closed = [\<lparr>sid = 0, sdata = footerE, sfail = None\<rparr>]\<rparr>)
   \<and> readEstargzChunkedManifest_toc lib0 \<lparr>sid = 2, sdata = tocE, sfail = None\<rparr> None world0
       = (Some ManifestTooBig, None, Close \<lparr>sid = 2, sdata = tocE, sfail = None\<rparr> world0)"
proof -
  let ?loc = "\<lparr>offset = 2000, length_c = 52428801, lengthUncompressed = 1, manifestType = 1,
               offsetTarSplit = 0, lengthTarSplit = 0, lengthUncompressedTarSplit = 0,
               tarSplitChecksumAnnotation = []\<rparr> :: location"
  let ?w1 = "\<lparr>fetches = [[\<lparr>Offset = 99999949, Length = 51\<rparr>]],
         opened = [\<lparr>sid = 0, sdata = footerE, sfail = None\<rparr>], closed = []\<rparr> :: world"
  let ?w2 = "\<lparr>fetches = [[\<lparr>Offset = 99999949, Length = 51\<rparr>]],
         opened = [\<lparr>sid = 0, sdata = footerE, sfail = None\<rparr>],
         closed = [\<lparr>sid = 0, sdata = footerE, sfail = None\<rparr>]\<rparr> :: world"
  have z1: "\<not> sint (10000000 :: i64) \<le> 56" by simp
  have z2: "lookup ann_big (ManifestChecksumKey lib0) \<noteq> []"
    by (simp add: lookup_def ann_big_def lib0_def)
  have sc4: "toy_Sscanf4 ''2000:52428801:1:1'' = Inr (2000, 52428801, 1, 1)"
    by (simp add: toy_Sscanf4_def scan_field_def scan_colon_def decval_def)
  have z3: "readZstdChunkedManifest_locate lib0 (src0 footer0) 10000000 ann_big world0 = (Inr ?loc, world0)"
    using sc4 by (simp add: readZstdChunkedManifest_locate_def lookup_def ann_big_def lib0_def)
  have z4: "manifestType ?loc = ManifestTypeCRFS lib0" by (simp add: lib0_def)
  have z5: "maxTocSize < unat (52428801 :: u64)" by (simp add: maxTocSize_def)
  have e1: "\<not> sint (100000000 :: i64) \<le> 51" by simp
  have e2: "getBlobAt srcE [\<lparr>Offset = 100000000 - 51, Length = 51\<rparr>] world0 =
       (Inr [SoeStream \<lparr>sid = 0, sdata = footerE, sfail = None\<rparr>], ?w1)"
    by (simp add: getBlobAt_def GetBlobAt_def srcE_def world0_def)
  have e3: "readEstargzChunkedManifest_footer [SoeStream \<lparr>sid = 0, sdata = footerE, sfail = None\<rparr>]
       (replicate 51 0) None ?w1 = (footerE, None, ?w2)"
    by (simp add: footer_stage Close_def)
  have e4: "strconv_ParseInt lib0 (map (\<lambda>b. char_of (unat b)) (slice 16 32 footerE)) = Inr 100"
    using parseE by (simp add: lib0_def)
  have e5: "int maxTocSize < sint (100000000 - 51 - 100 :: i64)" by (simp add: maxTocSize_def)
  have t1: "pgzip_NewReader lib0 \<lparr>sid = 2, sdata = tocE, sfail = None\<rparr>
       = Inr \<lparr>sid = 2, sdata = drop 2 tocE, sfail = None\<rparr>"
    by (simp add: lib0_def toy_gunzip_def tocE_def)
  have t2: "tar_Next lib0 \<lparr>sid = 2, sdata = drop 2 tocE, sfail = None\<rparr>
       = Inr (52428801, \<lparr>sid = 2, sdata = [], sfail = None\<rparr>)"
    by (simp add: lib0_def toy_tar_Next_def tocE_def LittleEndian_Uint64_def)
  have t3: "maxTocSize < 52428801" by (simp add: maxTocSize_def)
  note th = manifest_too_big [where L = lib0 and blobSize = 10000000 and annotations = ann_big
      and S = "src0 footer0" and w = world0 and loc = ?loc and ?w1.0 = world0]
  from th z1 z2 z3 z4 z5
  have Z: "readZstdChunkedManifest lib0 (src0 footer0) 10000000 ann_big world0 = (Inl ManifestTooBig, world0)"
    by simp
  note th2 = manifest_too_big [where L = lib0 and blobSize = 100000000 and annotations = Map.empty
      and S = srcE and w = world0 and ?w1.0 = ?w1 and ?w2.0 = ?w2 and footer = footerE
      and soes = "[SoeStream \<lparr>sid = 0, sdata = footerE, sfail = None\<rparr>]" and e = None
      and tocOffset = 100]
  from th2 e1 e2 e3 e4 e5
  have E: "readEstargzChunkedManifest lib0 srcE 100000000 Map.empty world0 = (Inl ManifestTooBig, ?w2)"
    by simp
  note th3 = manifest_too_big [where L = lib0 and s = "\<lparr>sid = 2, sdata = tocE, sfail = None\<rparr>"
      and r = "\<lparr>sid = 2, sdata = drop 2 tocE, sfail = None\<rparr>" and headerSize = 52428801
      and aTar = "\<lparr>sid = 2, sdata = [], sfail = None\<rparr>" and mu = None and w = world0]
  from th3 t1 t2 t3
  have T: "readEstargzChunkedManifest_toc lib0 \<lparr>sid = 2, sdata = tocE, sfail = None\<rparr> None world0
       = (Some ManifestTooBig, None, Close \<lparr>sid = 2, sdata = tocE, sfail = None\<rparr> world0)"
    by blast
  from z1 z2 z3 z5 Z e1 e5 E T show ?thesis by blast
qed

text \<open>
  Claim C8: in \<^verbatim>\<open>readEstargzChunkedManifest\<close>, when the offset parsed from the footer is
  at least \<open>blobSize - 51\<close>, the size \<open>blobSize - 51 - tocOffset\<close> is zero or negative
  (the subtraction does not wrap); the check \<open>size > maxTocSize\<close> lets it pass, and the
  call goes on to request the range at \<open>tocOffset\<close> whose length is that size converted
  to \<^verbatim>\<open>uint64\<close>, that is, the size modulo \<open>2 ^ 64\<close>.
\<close>

theorem estargz_nonpositive_size:
  assumes "\<not> sint blobSize \<le> 51"
    and "getBlobAt S [\<lparr>Offset = blobSize - 51, Length = 51\<rparr>] w = (Inr soes, w1)"
    and "readEstargzChunkedManifest_footer soes (replicate 51 0) None w1 = (footer, e, w2)"
    and "strconv_ParseInt L (map (\<lambda>b. char_of (unat b)) (slice 16 32 footer)) = Inr tocOffset"
    and "sint blobSize - 51 \<le> sint tocOffset"
  shows "sint (blobSize - 51 - tocOffset) = sint blobSize - 51 - sint tocOffset
     \<and> sint (blobSize - 51 - tocOffset) \<le> 0
     \<and> \<not> int maxTocSize < sint (blobSize - 51 - tocOffset)
     \<and> uint (blobSize - 51 - tocOffset) = (sint blobSize - 51 - sint tocOffset) mod 2 ^ 64
     \<and> (\<exists>res w'. readEstargzChunkedManifest L S blobSize annotations w = (res, w')
           \<and> fetches w' = fetches w @
                [[\<lparr>Offset = blobSize - 51, Length = 51\<rparr>],
                 [\<lparr>Offset = tocOffset, Length = blobSize - 51 - tocOffset\<rparr>]])"
proof -
  let ?size = "blobSize - 51 - tocOffset"
  have sz: "sint ?size = sint blobSize - 51 - sint tocOffset"
    using estargz_size [OF assms(1) assms(5)] .
  with assms(5) have neg: "sint ?size \<le> 0" by simp
  then have nb: "\<not> int maxTocSize < sint ?size" by simp
  have u: "uint ?size = (sint blobSize - 51 - sint tocOffset) mod 2 ^ 64"
    using uint_sint [of ?size] sz by (simp add: take_bit_eq_mod)
  have f1: "fetches w1 = fetches w @ [[\<lparr>Offset = blobSize - 51, Length = 51\<rparr>]]"
    using assms(2) by (auto simp: getBlobAt_def GetBlobAt_def Let_def split: sum.splits)
  have f2: "fetches w2 = fetches w1"
    using readEstargzChunkedManifest_footer_world [OF assms(3)] by simp
  obtain g w3 where g: "getBlobAt S [\<lparr>Offset = tocOffset, Length = ?size\<rparr>] w2 = (g, w3)"
    by (cases "getBlobAt S [\<lparr>Offset = tocOffset, Length = ?size\<rparr>] w2") auto
  then have f3: "fetches w3 = fetches w2 @ [[\<lparr>Offset = tocOffset, Length = ?size\<rparr>]]"
    by (auto simp: getBlobAt_def GetBlobAt_def Let_def split: sum.splits)
  have "\<exists>res w'. readEstargzChunkedManifest L S blobSize annotations w = (res, w')
      \<and> fetches w' = fetches w3"
  proof (cases g)
    case (Inl err)
    with assms(1-4) nb g show ?thesis
      by (simp add: readEstargzChunkedManifest_def)
  next
    case (Inr soes2)
    obtain mu e4 w4 where l: "readEstargzChunkedManifest_loop L soes2 None None w3 = (mu, e4, w4)"
      by (cases "readEstargzChunkedManifest_loop L soes2 None None w3") auto
    from readEstargzChunkedManifest_loop_world [OF l] have "fetches w4 = fetches w3" by simp
    with assms(1-4) nb g Inr l show ?thesis
      by (auto simp: readEstargzChunkedManifest_def split: option.splits sum.splits)
  qed
  with f1 f2 f3 have "\<exists>res w'. readEstargzChunkedManifest L S blobSize annotations w = (res, w')
           \<and> fetches w' = fetches w @
                [[\<lparr>Offset = blobSize - 51, Length = 51\<rparr>],
                 [\<lparr>Offset = tocOffset, Length = blobSize - 51 - tocOffset\<rparr>]]"
    by auto
  with sz neg nb u show ?thesis by blast
qed

theorem estargz_nonpositive_size_witness:
  "\<not> sint (100 :: i64) \<le> 51
   \<and> getBlobAt srcE [\<lparr>Offset = 100 - 51, Length = 51\<rparr>] world0 =
       (Inr [SoeStream \<lparr>sid = 0, sdata = footerE, sfail = None\<rparr>],
        \<lparr>fetches = [[\<lparr>Offset = 49, Length = 51\<rparr>]],
         opened = [\<lparr>sid = 0, sdata = footerE, sfail = None\<rparr>], closed = []\<rparr>)
   \<and> strconv_ParseInt lib0 (map (\<lambda>b. char_of (unat b)) (slice 16 32 footerE)) = Inr 100
   \<and> sint (100 :: i64) - 51 \<le> sint (100 :: i64)
   \<and> sint (100 - 51 - 100 :: i64) = - 51
   \<and> readEstargzChunkedManifest lib0 srcE 100 Map.empty world0 =
       (Inl ManifestNotFound,
        \<lparr>fetches = [[\<lparr>Offset = 49, Length = 51\<rparr>],
                    [\<lparr>Offset = 100, Length = 18446744073709551565\<rparr>]],
         opened = [\<lparr>sid = 0, sdata = footerE, sfail = None\<rparr>, \<lparr>sid = 2, sdata = tocE, sfail = None\<rparr>],
         closed = [\<lparr>sid = 0, sdata = footerE, sfail = None\<rparr>, \<lparr>sid = 2, sdata = tocE, sfail = None\<rparr>]\<rparr>)"
proof -
  let ?w1 = "\<lparr>fetches = [[\<lparr>Offset = 49, Length = 51\<rparr>]],
         opened = [\<lparr>sid = 0, sdata = footerE, sfail = None\<rparr>], closed = []\<rparr> :: world"
  have h1: "\<not> sint (100 :: i64) \<le> 51" by simp
  have h2: "getBlobAt srcE [\<lparr>Offset = 100 - 51, Length = 51\<rparr>] world0 =
       (Inr [SoeStream \<lparr>sid = 0, sdata = footerE, sfail = None\<rparr>], ?w1)"
    by (simp add: getBlobAt_def GetBlobAt_def srcE_def world0_def)
  have h3: "readEstargzChunkedManifest_footer [SoeStream \<lparr>sid = 0, sdata = footerE, sfail = None\<rparr>]
       (replicate 51 0) None ?w1
      = (footerE, None, Close \<lparr>sid = 0, sdata = footerE, sfail = None\<rparr> ?w1)"
    by (simp add: footer_stage)
  have h4: "strconv_ParseInt lib0 (map (\<lambda>b. char_of (unat b)) (slice 16 32 footerE)) = Inr 100"
    using parseE by (simp add: lib0_def)
  have h5: "sint (100 :: i64) - 51 \<le> sint (100 :: i64)" by simp
  have gz: "pgzip_NewReader lib0 \<lparr>sid = 2, sdata = tocE, sfail = None\<rparr>
       = Inr \<lparr>sid = 2, sdata = drop 2 tocE, sfail = None\<rparr>"
    by (simp add: lib0_def toy_gunzip_def tocE_def)
  have tar: "tar_Next lib0 \<lparr>sid = 2, sdata = drop 2 tocE, sfail = None\<rparr>
       = Inr (52428801, \<lparr>sid = 2, sdata = [], sfail = None\<rparr>)"
    by (simp add: lib0_def toy_tar_Next_def tocE_def LittleEndian_Uint64_def)
  have toc: "readEstargzChunkedManifest_toc lib0 \<lparr>sid = 2, sdata = tocE, sfail = None\<rparr> None w
      = (Some ManifestTooBig, None, Close \<lparr>sid = 2, sdata = tocE, sfail = None\<rparr> w)" for w
    using gz tar by (simp add: readEstargzChunkedManifest_toc_def maxTocSize_def)
  have run: "readEstargzChunkedManifest lib0 srcE 100 Map.empty world0 =
       (Inl ManifestNotFound,
        \<lparr>fetches = [[\<lparr>Offset = 49, Length = 51\<rparr>],
                    [\<lparr>Offset = 100, Length = 18446744073709551565\<rparr>]],
         opened = [\<lparr>sid = 0, sdata = footerE, sfail = None\<rparr>, \<lparr>sid = 2, sdata = tocE, sfail = None\<rparr>],
         closed = [\<lparr>sid = 0, sdata = footerE, sfail = None\<rparr>, \<lparr>sid = 2, sdata = tocE, sfail = None\<rparr>]\<rparr>)"
    by (simp add: readEstargzChunkedManifest_def getBlobAt_def GetBlobAt_def srcE_def world0_def
        footer_stage h4 toc maxTocSize_def Close_def)
  from estargz_nonpositive_size [where S = srcE and L = lib0 and w = world0, OF h1 h2 h3 h4 h5]
  have "sint (100 - 51 - 100 :: i64) = sint (100 :: i64) - 51 - sint (100 :: i64)" by blast
  then have sz: "sint (100 - 51 - 100 :: i64) = - 51" by simp
  from h1 h2 h4 h5 sz run show ?thesis by blast
qed

subsection \<open>Closing the streams\<close>

text \<open>
  Claim C2 asks that every stream obtained from the source is closed before either
  function returns, also the stream of the footer request that
  \<^verbatim>\<open>readZstdChunkedManifest\<close> makes when there is no metadata annotation.
  \<^verbatim>\<open>readEstargzChunkedManifest\<close> does so, and so does the batched request of
  \<^verbatim>\<open>readZstdChunkedManifest\<close> (the two lemmas on closing above). The footer request of
  \<^verbatim>\<open>readZstdChunkedManifest\<close> does not: its reader is read and never closed. Here the
  call succeeds and the stream of the footer, number 9999944, is among the opened
  streams and not among the closed ones.
\<close>

theorem footer_stream_left_open:
  "readZstdChunkedManifest lib0 (src0 footer0) 10000000 ann_checksum world0 =
     (Inr ([0x41], [], 1000),
      \<lparr>fetches = [[\<lparr>Offset = 9999944, Length = 56\<rparr>], [\<lparr>Offset = 1000, Length = 5\<rparr>]],
       opened = [\<lparr>sid = 9999944, sdata = footer0, sfail = None\<rparr>,
                 \<lparr>sid = 1000, sdata = blob0, sfail = None\<rparr>],
       closed = [\<lparr>sid = 1000, sdata = blob0, sfail = None\<rparr>]\<rparr>)
   \<and> \<lparr>sid = 9999944, sdata = footer0, sfail = None\<rparr>
        \<notin> set [\<lparr>sid = 1000, sdata = blob0, sfail = None\<rparr>]"
  by (simp add: zstd_defs toy_defs world0_def src0_def blob0_def footer0_def ann_checksum_def)

end
